theory Spec2Isabelle
  imports Complex_Main
begin

section \<open>PPTist import pipeline: \<open>src/hooks/useImport.ts\<close>\<close>

text \<open>
  A shallow embedding of the conversion of a raw slide deck (the output of the
  \<open>pptxtojson\<close> parser) into the editor's slide model.

  Numbers. A JavaScript number is modelled as an exact \<open>real\<close>: IEEE rounding,
  signed zeros and overflow are not represented, and every number read from
  the raw document is taken to be finite. The non-finite results of a division
  are represented where the source divides by a value that can be zero
  (\<open>js_div\<close>).

  Names. Fields keep the names of the source. A name that is a HOL constant
  or an Isar keyword carries a prime (\<open>top'\<close>, \<open>rotate'\<close>, \<open>id'\<close>, \<open>end'\<close>,
  \<open>text'\<close>, \<open>size'\<close>, \<open>note'\<close>, \<open>values'\<close>, \<open>includes'\<close>); one-letter fields carry the
  name of their object (\<open>shadow_h\<close>, \<open>rect_l\<close>). Records of different objects share field
  names, as the objects of the source do: a selector is written with the name
  of its record where needed (\<open>BaseElement.left\<close>, \<open>PPTLineElement.left\<close>).
\<close>

subsection \<open>JavaScript primitives\<close>

datatype jsnum = Fin real | NaN | PosInf | NegInf

text \<open>\<open>a / b\<close> on finite operands.\<close>

definition js_div :: "real \<Rightarrow> real \<Rightarrow> jsnum" where
  "js_div a b =
     (if b \<noteq> 0 then Fin (a / b)
      else if a = 0 then NaN
      else if 0 < a then PosInf else NegInf)"

fun js_add :: "jsnum \<Rightarrow> jsnum \<Rightarrow> jsnum" where
  "js_add (Fin a) (Fin b) = Fin (a + b)"
| "js_add NaN _ = NaN"
| "js_add _ NaN = NaN"
| "js_add PosInf NegInf = NaN"
| "js_add NegInf PosInf = NaN"
| "js_add PosInf _ = PosInf"
| "js_add _ PosInf = PosInf"
| "js_add NegInf _ = NegInf"
| "js_add _ NegInf = NegInf"

text \<open>\<open>a > b\<close>: every comparison with \<open>NaN\<close> is false.\<close>

fun js_gt :: "jsnum \<Rightarrow> jsnum \<Rightarrow> bool" where
  "js_gt (Fin a) (Fin b) = (b < a)"
| "js_gt NaN _ = False"
| "js_gt _ NaN = False"
| "js_gt PosInf PosInf = False"
| "js_gt PosInf _ = True"
| "js_gt NegInf _ = False"
| "js_gt (Fin a) NegInf = True"
| "js_gt (Fin a) PosInf = False"

text \<open>
  \<open>+x.toFixed(2)\<close>: the nearest multiple of \<open>1/100\<close>, the larger one in
  magnitude at a tie; the sign is handled apart, as \<open>Number.prototype.toFixed\<close>
  does.
\<close>

definition toFixed2 :: "real \<Rightarrow> real" where
  "toFixed2 x =
     (if x < 0 then - (of_int \<lfloor>- x * 100 + 1 / 2\<rfloor> / 100)
      else of_int \<lfloor>x * 100 + 1 / 2\<rfloor> / 100)"

text \<open>\<open>a || b\<close> on numbers: \<open>0\<close> is the falsy finite number.\<close>

definition num_or :: "real \<Rightarrow> real \<Rightarrow> real" where
  "num_or a b = (if a \<noteq> 0 then a else b)"

text \<open>\<open>s.startsWith(p)\<close>.\<close>

fun startsWith :: "string \<Rightarrow> string \<Rightarrow> bool" where
  "startsWith s [] = True"
| "startsWith [] (p # ps) = False"
| "startsWith (c # cs) (p # ps) = (c = p \<and> startsWith cs ps)"

text \<open>
  \<open>s.includes(needle)\<close>; also \<open>/needle/.test(s)\<close> for the regular expressions
  of the source, which are all plain words.
\<close>

fun includes' :: "string \<Rightarrow> string \<Rightarrow> bool" where
  "includes' [] needle = (needle = [])"
| "includes' (c # cs) needle = (startsWith (c # cs) needle \<or> includes' cs needle)"

subsection \<open>Raw elements (\<open>pptxtojson\<close>)\<close>

record Shadow =
  shadow_h :: real
  shadow_v :: real
  blur :: real
  color :: string

text \<open>A colour stop of a raw gradient: \<open>pos\<close> is a string such as \<open>50%\<close>.\<close>

record RawGradientColor =
  pos :: string
  color :: string

record GradientFillValue =
  path :: string
  rot :: real
  colors :: "RawGradientColor list"

record ImageFillValue =
  picBase64 :: string
  opacity :: real

text \<open>
  \<open>fill\<close>: an object \<open>{type, value}\<close> with \<open>type\<close> one of \<open>color\<close>, \<open>image\<close>,
  \<open>gradient\<close>. Fills of another type are not represented.
\<close>

datatype Fill = ColorFill string | ImageFill ImageFillValue | GradientFill GradientFillValue

record Rect =
  rect_l :: "real option"
  rect_t :: "real option"
  rect_r :: "real option"
  rect_b :: "real option"

record Border =
  borderColor :: "string option"
  borderWidth :: "real option"
  borderType :: "string option"

record Borders =
  top' :: "Border option"
  bottom :: "Border option"
  left :: "Border option"
  right :: "Border option"

record TableCellData =
  text' :: string
  colSpan :: "nat option"
  rowSpan :: "nat option"
  fontColor :: "string option"
  fontBold :: "bool option"
  fillColor :: "string option"
  borders :: "Borders option"

record ChartValue =
  chart_x :: string
  chart_y :: real

text \<open>\<open>xlabels\<close> is an object; the list holds its values in property order.\<close>

record ChartItem =
  key :: string
  values' :: "ChartValue list"
  xlabels :: "string list"

text \<open>
  The fields that the converters read from a raw element, of whatever kind.
  \<open>el.data\<close> is \<open>tableData\<close> on a table, \<open>scatterData\<close> on a scatter or bubble chart
  and \<open>chartData\<close> on any other chart. An optional flag that is absent is \<open>None\<close>.
\<close>

record BaseElement =
  type :: string
  left :: real
  top' :: real
  width :: real
  height :: real
  rotate' :: real
  isFlipH :: "bool option"
  isFlipV :: "bool option"
  order :: real
  content :: string
  borderColor :: string
  borderWidth :: real
  borderType :: string
  fill :: "Fill option"
  isVertical :: bool
  shadow :: "Shadow option"
  src :: "string option"
  blob :: "string option"
  geom :: "string option"
  rect :: "Rect option"
  picBase64 :: string
  shapType :: string
  path :: "string option"
  vAlign :: string
  tableData :: "TableCellData list list"
  colWidths :: "real list"
  rowHeights :: "real list"
  borders :: "Borders option"
  chartType :: string
  scatterData :: "real list list"
  chartData :: "ChartItem list"
  barDir :: "string option"
  grouping :: "string option"
  colors :: "string list option"

text \<open>
  A raw element with the members of its \<open>elements\<close> array (a group or a
  diagram; empty otherwise). The raw document is a tree: no object occurs at
  two places, so that scaling an element in place, as the source does, is the
  same as passing the scaled value on.
\<close>

datatype Element = Element (attrs: BaseElement) (elements: "Element list")

text \<open>A flag is truthy when it is present and \<open>true\<close>.\<close>

definition truthy :: "bool option \<Rightarrow> bool" where
  "truthy f = (f = Some True)"

subsection \<open>Converted elements (\<open>@/types/slides\<close>)\<close>

record PPTElementOutline =
  color :: string
  width :: real
  style :: string

record PPTTextElement =
  type :: string
  id' :: string
  width :: real
  height :: real
  left :: real
  top' :: real
  rotate' :: real
  defaultFontName :: string
  defaultColor :: string
  content :: string
  lineHeight :: real
  outline :: PPTElementOutline
  fill :: string
  vertical :: bool
  shadow :: "Shadow option"

record ImageElementClip =
  shape :: string
  range :: "(real \<times> real) \<times> (real \<times> real)"

record PPTImageElement =
  type :: string
  id' :: string
  src :: "string option"
  width :: real
  height :: real
  left :: real
  top' :: real
  fixedRatio :: bool
  rotate' :: real
  flipH :: "bool option"
  flipV :: "bool option"
  outline :: "PPTElementOutline option"
  clip :: "ImageElementClip option"

record PPTAudioElement =
  type :: string
  id' :: string
  src :: "string option"
  width :: real
  height :: real
  left :: real
  top' :: real
  rotate' :: real
  fixedRatio :: bool
  color :: "string option"
  loop :: bool
  autoplay :: bool

record PPTVideoElement =
  type :: string
  id' :: string
  src :: "string option"
  width :: real
  height :: real
  left :: real
  top' :: real
  rotate' :: real
  autoplay :: bool

record GradientColor =
  pos :: real
  color :: string

record Gradient =
  type :: string
  colors :: "GradientColor list"
  rotate' :: real

record ShapeText =
  content :: string
  defaultFontName :: string
  defaultColor :: string
  align :: string

record PPTShapeElement =
  type :: string
  id' :: string
  width :: real
  height :: real
  left :: real
  top' :: real
  viewBox :: "real \<times> real"
  path :: string
  fill :: string
  gradient :: "Gradient option"
  pattern :: "string option"
  opacity :: real
  fixedRatio :: bool
  rotate' :: real
  outline :: PPTElementOutline
  text' :: ShapeText
  flipH :: "bool option"
  flipV :: "bool option"
  shadow :: "Shadow option"
  pathFormula :: "string option"
  keypoints :: "real list option"
  special :: "bool option"

record PPTLineElement =
  type :: string
  id' :: string
  width :: real
  left :: real
  top' :: real
  start :: "real \<times> real"
  end' :: "real \<times> real"
  style :: string
  color :: string
  points :: "string \<times> string"
  broken2 :: "(real \<times> real) option"
  cubic :: "((real \<times> real) \<times> (real \<times> real)) option"

record TableCellStyle =
  fontname :: string
  color :: "string option"
  align :: string
  fontsize :: string
  bold :: "bool option"
  backcolor :: "string option"

record TableCell =
  id' :: string
  colspan :: nat
  rowspan :: nat
  text' :: string
  style :: TableCellStyle

record PPTTableElement =
  type :: string
  id' :: string
  width :: real
  height :: real
  left :: real
  top' :: real
  colWidths :: "jsnum list"
  rotate' :: real
  data :: "TableCell list list"
  outline :: PPTElementOutline
  cellMinHeight :: real

record ChartData =
  labels :: "string list"
  legends :: "string list"
  series :: "real list list"

record ChartOptions =
  stack :: "bool option"

record PPTChartElement =
  type :: string
  id' :: string
  chartType :: string
  width :: real
  height :: real
  left :: real
  top' :: real
  rotate' :: real
  themeColors :: "string list"
  textColor :: string
  data :: ChartData
  options :: ChartOptions

datatype PPTElement =
    TextElement PPTTextElement
  | ImageElement PPTImageElement
  | AudioElement PPTAudioElement
  | VideoElement PPTVideoElement
  | ShapeElement PPTShapeElement
  | LineElement PPTLineElement
  | TableElement PPTTableElement
  | ChartElement PPTChartElement

text \<open>The \<open>type\<close> property of a converted element.\<close>

fun elementType :: "PPTElement \<Rightarrow> string" where
  "elementType (TextElement e) = PPTTextElement.type e"
| "elementType (ImageElement e) = PPTImageElement.type e"
| "elementType (AudioElement e) = PPTAudioElement.type e"
| "elementType (VideoElement e) = PPTVideoElement.type e"
| "elementType (ShapeElement e) = PPTShapeElement.type e"
| "elementType (LineElement e) = PPTLineElement.type e"
| "elementType (TableElement e) = PPTTableElement.type e"
| "elementType (ChartElement e) = PPTChartElement.type e"

text \<open>The values of \<open>type\<close> that a converter writes.\<close>

definition convertedKinds :: "string list" where
  "convertedKinds = [''text'', ''image'', ''audio'', ''video'', ''shape'', ''line'', ''table'', ''chart'']"

text \<open>
  The box \<open>(left, top, width, height)\<close> of a converted element; a line has no
  \<open>height\<close>, and its \<open>width\<close> is the width of the stroke.
\<close>

fun elementBox :: "PPTElement \<Rightarrow> (real \<times> real \<times> real \<times> real) option" where
  "elementBox (TextElement e) = Some (PPTTextElement.left e, PPTTextElement.top' e,
     PPTTextElement.width e, PPTTextElement.height e)"
| "elementBox (ImageElement e) = Some (PPTImageElement.left e, PPTImageElement.top' e,
     PPTImageElement.width e, PPTImageElement.height e)"
| "elementBox (AudioElement e) = Some (PPTAudioElement.left e, PPTAudioElement.top' e,
     PPTAudioElement.width e, PPTAudioElement.height e)"
| "elementBox (VideoElement e) = Some (PPTVideoElement.left e, PPTVideoElement.top' e,
     PPTVideoElement.width e, PPTVideoElement.height e)"
| "elementBox (ShapeElement e) = Some (PPTShapeElement.left e, PPTShapeElement.top' e,
     PPTShapeElement.width e, PPTShapeElement.height e)"
| "elementBox (LineElement e) = None"
| "elementBox (TableElement e) = Some (PPTTableElement.left e, PPTTableElement.top' e,
     PPTTableElement.width e, PPTTableElement.height e)"
| "elementBox (ChartElement e) = Some (PPTChartElement.left e, PPTChartElement.top' e,
     PPTChartElement.width e, PPTChartElement.height e)"



record SlideBackgroundImage =
  src :: string
  size' :: string

record SlideBackground =
  type :: string
  color :: "string option"
  image :: "SlideBackgroundImage option"
  gradient :: "Gradient option"

record Slide =
  id' :: string
  elements :: "PPTElement list"
  background :: SlideBackground
  remark :: string

subsection \<open>Geometry utilities\<close>

record RotatedLine =
  start :: "real \<times> real"
  end' :: "real \<times> real"
  offset :: "real \<times> real"

definition rotateLine :: "PPTLineElement \<Rightarrow> real \<Rightarrow> RotatedLine" where
  "rotateLine line angleDeg =
     (let start = PPTLineElement.start line;
          end = PPTLineElement.end' line;
          angleRad = angleDeg * pi / 180;
          midX = (fst start + fst end) / 2;
          midY = (snd start + snd end) / 2;
          startTransX = fst start - midX;
          startTransY = snd start - midY;
          endTransX = fst end - midX;
          endTransY = snd end - midY;
          cosA = cos angleRad;
          sinA = sin angleRad;
          startRotX = startTransX * cosA - startTransY * sinA;
          startRotY = startTransX * sinA + startTransY * cosA;
          endRotX = endTransX * cosA - endTransY * sinA;
          endRotY = endTransX * sinA + endTransY * cosA;
          startNewX = startRotX + midX;
          startNewY = startRotY + midY;
          endNewX = endRotX + midX;
          endNewY = endRotY + midY;
          beforeMinX = min (fst start) (fst end);
          beforeMinY = min (snd start) (snd end);
          afterMinX = min startNewX endNewX;
          afterMinY = min startNewY endNewY;
          startAdjustedX = startNewX - afterMinX;
          startAdjustedY = startNewY - afterMinY;
          endAdjustedX = endNewX - afterMinX;
          endAdjustedY = endNewY - afterMinY
      in \<lparr>RotatedLine.start = (startAdjustedX, startAdjustedY),
          end' = (endAdjustedX, endAdjustedY),
          offset = (afterMinX - beforeMinX, afterMinY - beforeMinY)\<rparr>)"

subsection \<open>Line and connector elements\<close>

text \<open>
  The four diagonals of the bounding box, by \<open>(isFlipV, isFlipH)\<close>, in the order
  of the source's \<open>if\<close> chain: the pair \<open>(start, end)\<close>.
\<close>

definition lineEndpoints :: "BaseElement \<Rightarrow> (real \<times> real) \<times> (real \<times> real)" where
  "lineEndpoints el =
     (if \<not> truthy (isFlipV el) \<and> \<not> truthy (isFlipH el)
        then ((0, 0), (BaseElement.width el, BaseElement.height el))
      else if truthy (isFlipV el) \<and> truthy (isFlipH el)
        then ((BaseElement.width el, BaseElement.height el), (0, 0))
      else if truthy (isFlipV el) \<and> \<not> truthy (isFlipH el)
        then ((0, BaseElement.height el), (BaseElement.width el, 0))
      else ((BaseElement.width el, 0), (0, BaseElement.height el)))"

text \<open>
  \<open>parseLineElement(el, ratio)\<close>. The first argument is the token that
  \<open>nanoid(10)\<close> returns in this call.
\<close>

definition parseLineElement :: "string \<Rightarrow> BaseElement \<Rightarrow> real \<Rightarrow> PPTLineElement" where
  "parseLineElement newId el ratio =
     (let data = \<lparr>PPTLineElement.type = ''line'',
            id' = newId,
            width = toFixed2 (num_or (BaseElement.borderWidth el) 1 * ratio),
            left = BaseElement.left el,
            top' = BaseElement.top' el,
            start = fst (lineEndpoints el),
            end' = snd (lineEndpoints el),
            style = BaseElement.borderType el,
            color = BaseElement.borderColor el,
            points = ('''', if includes' (shapType el) ''straightConnector'' then ''arrow'' else ''''),
            broken2 = None,
            cubic = None\<rparr>;
          data = (if BaseElement.rotate' el \<noteq> 0
            then (let rl = rotateLine data (BaseElement.rotate' el)
                  in data\<lparr>PPTLineElement.start := RotatedLine.start rl,
                          PPTLineElement.end' := RotatedLine.end' rl,
                          PPTLineElement.left := PPTLineElement.left data + fst (offset rl),
                          PPTLineElement.top' := PPTLineElement.top' data + snd (offset rl)\<rparr>)
            else data);
          data = (if includes' (shapType el) ''bentConnector''
            then data\<lparr>broken2 := Some
                   (\<bar>fst (PPTLineElement.start data) - fst (PPTLineElement.end' data)\<bar> / 2,
                    \<bar>snd (PPTLineElement.start data) - snd (PPTLineElement.end' data)\<bar> / 2)\<rparr>
            else data);
          data = (if includes' (shapType el) ''curvedConnector''
            then (let cubic = (\<bar>fst (PPTLineElement.start data) - fst (PPTLineElement.end' data)\<bar> / 2,
                               \<bar>snd (PPTLineElement.start data) - snd (PPTLineElement.end' data)\<bar> / 2)
                  in data\<lparr>PPTLineElement.cubic := Some (cubic, cubic)\<rparr>)
            else data)
      in data)"

subsection \<open>Flipping and rotating the members of a group\<close>

datatype Axis = AxisX | AxisY

text \<open>\<open>{...element, ...}\<close>: a copy of the element with some fields replaced.\<close>

fun withAttrs :: "(BaseElement \<Rightarrow> BaseElement) \<Rightarrow> Element \<Rightarrow> Element" where
  "withAttrs f (Element a es) = Element (f a) es"

text \<open>
  The callback of \<open>elements.map\<close> in \<open>flipGroupElements\<close>: a copy of the element,
  reflected about the centre line of the bounding box.
\<close>

definition flipElement :: "Axis \<Rightarrow> real \<Rightarrow> real \<Rightarrow> Element \<Rightarrow> Element" where
  "flipElement axis centerX centerY element =
     (let newElement = element;
          newElement = (if axis = AxisY
            then withAttrs (\<lambda>a. a\<lparr>BaseElement.left :=
                   2 * centerX - BaseElement.left (attrs element) - BaseElement.width (attrs element)\<rparr>)
                   newElement
            else newElement);
          newElement = (if axis = AxisX
            then withAttrs (\<lambda>a. a\<lparr>BaseElement.top' :=
                   2 * centerY - BaseElement.top' (attrs element) - BaseElement.height (attrs element)\<rparr>)
                   newElement
            else newElement)
      in newElement)"

text \<open>
  The centre \<open>(centerX, centerY)\<close> of the bounding box of the elements \<open>e # es\<close>:
  \<open>Math.min\<close> and \<open>Math.max\<close> over the left and right edges and over the top and
  bottom edges.
\<close>

definition boundingCenter :: "Element \<Rightarrow> Element list \<Rightarrow> real \<times> real" where
  "boundingCenter e es =
     (let minX = fold min (map (\<lambda>el. BaseElement.left (attrs el)) es)
                   (BaseElement.left (attrs e));
          maxX = fold max (map (\<lambda>el. BaseElement.left (attrs el) + BaseElement.width (attrs el)) es)
                   (BaseElement.left (attrs e) + BaseElement.width (attrs e));
          minY = fold min (map (\<lambda>el. BaseElement.top' (attrs el)) es)
                   (BaseElement.top' (attrs e));
          maxY = fold max (map (\<lambda>el. BaseElement.top' (attrs el) + BaseElement.height (attrs el)) es)
                   (BaseElement.top' (attrs e) + BaseElement.height (attrs e));
          centerX = (minX + maxX) / 2;
          centerY = (minY + maxY) / 2
      in (centerX, centerY))"

text \<open>
  \<open>flipGroupElements(elements, axis)\<close>. On an empty array the bounds are
  \<open>Math.min()\<close> and \<open>Math.max()\<close> of no argument, which no callback reads, and
  the result is the empty array.
\<close>

definition flipGroupElements :: "Element list \<Rightarrow> Axis \<Rightarrow> Element list" where
  "flipGroupElements els axis =
     (case els of
        [] \<Rightarrow> []
      | e # es \<Rightarrow>
         (let (centerX, centerY) = boundingCenter e es
          in map (flipElement axis centerX centerY) els))"




text \<open>\<open>calculateRotatedPosition(x, y, w, h, ox, oy, k)\<close>: the pair \<open>(x, y)\<close>.\<close>

definition calculateRotatedPosition ::
  "real \<Rightarrow> real \<Rightarrow> real \<Rightarrow> real \<Rightarrow> real \<Rightarrow> real \<Rightarrow> real \<Rightarrow> real \<times> real" where
  "calculateRotatedPosition x y w h ox oy k =
     (let radians = k * (pi / 180);
          containerCenterX = x + w / 2;
          containerCenterY = y + h / 2;
          relativeX = ox - w / 2;
          relativeY = oy - h / 2;
          rotatedX = relativeX * cos radians + relativeY * sin radians;
          rotatedY = - relativeX * sin radians + relativeY * cos radians;
          graphicX = containerCenterX + rotatedX;
          graphicY = containerCenterY + rotatedY
      in (graphicX, graphicY))"

subsection \<open>Collaborators\<close>

text \<open>
  What the conversion reads from outside the file: the shape tables of
  \<open>@/configs/shapes\<close>, \<open>getSvgPathRange\<close> of \<open>@/utils/svgPathParser\<close>, the theme
  of the store as the conversion reads it, the tokens of \<open>nanoid\<close> (the \<open>n\<close>-th
  call returns \<open>nanoid n\<close>), the image transcoder behind
  \<open>convertEmfDataUrlToPng\<close>, the browser's HTML parser (\<open>cellDom\<close>: the style of
  the first \<open>p\<close> and the first \<open>span\<close> of a fragment and its \<open>innerText\<close>, an
  absent value being the empty string) and the number parsing and printing of
  the runtime (\<open>Number.parseInt\<close>, \<open>toFixed(1)\<close>). \<open>convertFontSizePtToPx\<close> rewrites
  an HTML string by a regular expression; its result is a string that no
  property below reads, and it is kept as a parameter as well.
\<close>

record ShapePoolItem =
  viewBox :: "real \<times> real"
  path :: string
  pathFormula :: "string option"
  pptxShapeType :: "string option"

record ShapeListItem =
  type :: string
  children :: "ShapePoolItem list"

record ShapePathFormula =
  editable :: "bool option"
  defaultValue :: "real list option"
  formula :: "real \<Rightarrow> real \<Rightarrow> real list option \<Rightarrow> string"

record SvgPathRange =
  minX :: real
  minY :: real
  maxX :: real
  maxY :: real

record Theme =
  fontName :: string
  fontColor :: string
  themeColors :: "string list"

record CellDom =
  textAlign :: string
  fontSize :: string
  fontFamily :: string
  color :: string
  innerText :: string

record Env =
  SHAPE_LIST :: "ShapeListItem list"
  SHAPE_PATH_FORMULAS :: "string \<Rightarrow> ShapePathFormula option"
  getSvgPathRange :: "string \<Rightarrow> SvgPathRange"
  theme :: Theme
  nanoid :: "nat \<Rightarrow> string"
  convertFontSizePtToPx :: "string \<Rightarrow> real \<Rightarrow> string"
  convertEmfDataUrlToPng :: "string \<Rightarrow> string"
  cellDom :: "string \<Rightarrow> CellDom"
  parseInt :: "string \<Rightarrow> real"
  toFixed1 :: "real \<Rightarrow> string"

datatype error = TypeError

text \<open>\<open>shapeList\<close>: the children of every entry of \<open>SHAPE_LIST\<close>, in order.\<close>

definition shapeList :: "Env \<Rightarrow> ShapePoolItem list" where
  "shapeList env = concat (map children (SHAPE_LIST env))"

subsection \<open>The converters of \<open>parseElements\<close>, one per kind\<close>

text \<open>
  Each converter is one branch of the loop of \<open>parseElements\<close>. Its argument
  \<open>el\<close> is the element after the loop has scaled \<open>width\<close>, \<open>height\<close>, \<open>left\<close> and
  \<open>top\<close> by \<open>ratio\<close>; \<open>newId\<close> is the token of the branch's call of \<open>nanoid\<close>.
\<close>

definition scaleShadow :: "Shadow \<Rightarrow> real \<Rightarrow> Shadow" where
  "scaleShadow sh ratio =
     \<lparr>shadow_h = shadow_h sh * ratio,
      shadow_v = shadow_v sh * ratio,
      blur = blur sh * ratio,
      color = Shadow.color sh\<rparr>"

definition textElement :: "Env \<Rightarrow> string \<Rightarrow> BaseElement \<Rightarrow> real \<Rightarrow> PPTTextElement" where
  "textElement env newId el ratio =
     (let textEl = \<lparr>PPTTextElement.type = ''text'',
            id' = newId,
            width = BaseElement.width el,
            height = BaseElement.height el,
            left = BaseElement.left el,
            top' = BaseElement.top' el,
            rotate' = BaseElement.rotate' el,
            defaultFontName = fontName (theme env),
            defaultColor = fontColor (theme env),
            content = convertFontSizePtToPx env (BaseElement.content el) ratio,
            lineHeight = 1,
            outline = \<lparr>PPTElementOutline.color = BaseElement.borderColor el,
               width = toFixed2 (BaseElement.borderWidth el * ratio),
               style = BaseElement.borderType el\<rparr>,
            fill = (case BaseElement.fill el of Some (ColorFill c) \<Rightarrow> c | _ \<Rightarrow> []),
            vertical = isVertical el,
            shadow = None\<rparr>
      in case BaseElement.shadow el of
           Some sh \<Rightarrow> textEl\<lparr>PPTTextElement.shadow := Some (scaleShadow sh ratio)\<rparr>
         | None \<Rightarrow> textEl)"

text \<open>\<open>/\.emf$/i.test(src)\<close>.\<close>

definition endsWithEmf :: "string \<Rightarrow> bool" where
  "endsWithEmf s =
     (case rev s of
        f # m # e # d # _ \<Rightarrow>
          d = CHR ''.'' \<and> (e = CHR ''e'' \<or> e = CHR ''E'') \<and> (m = CHR ''m'' \<or> m = CHR ''M'')
            \<and> (f = CHR ''f'' \<or> f = CHR ''F'')
      | _ \<Rightarrow> False)"

definition clipShapeTypes :: "string list" where
  "clipShapeTypes = [''roundRect'', ''ellipse'', ''triangle'', ''rhombus'', ''pentagon'',
     ''hexagon'', ''heptagon'', ''octagon'', ''parallelogram'', ''trapezoid'']"

text \<open>\<open>x || d\<close> on an optional number.\<close>

definition opt_num_or :: "real option \<Rightarrow> real \<Rightarrow> real" where
  "opt_num_or x d = (case x of Some a \<Rightarrow> num_or a d | None \<Rightarrow> d)"

text \<open>\<open>s || d\<close> on an optional string: the empty string is falsy.\<close>

definition opt_str_or :: "string option \<Rightarrow> string \<Rightarrow> string" where
  "opt_str_or x d = (case x of Some a \<Rightarrow> (if a \<noteq> [] then a else d) | None \<Rightarrow> d)"

definition imageElement :: "Env \<Rightarrow> string \<Rightarrow> BaseElement \<Rightarrow> real \<Rightarrow> PPTImageElement" where
  "imageElement env newId el ratio =
     (let src = (case BaseElement.src el of
            Some s \<Rightarrow>
              (if startsWith s ''data:image/x-emf'' \<or> endsWithEmf s
               then Some (convertEmfDataUrlToPng env s) else Some s)
          | None \<Rightarrow> None);
          element = \<lparr>PPTImageElement.type = ''image'',
            id' = newId,
            src = src,
            width = BaseElement.width el,
            height = BaseElement.height el,
            left = BaseElement.left el,
            top' = BaseElement.top' el,
            fixedRatio = True,
            rotate' = BaseElement.rotate' el,
            flipH = isFlipH el,
            flipV = isFlipV el,
            outline = None,
            clip = None\<rparr>;
          element = (if BaseElement.borderWidth el \<noteq> 0
            then element\<lparr>PPTImageElement.outline := Some
                   \<lparr>PPTElementOutline.color = BaseElement.borderColor el,
                    width = toFixed2 (BaseElement.borderWidth el * ratio),
                    style = BaseElement.borderType el\<rparr>\<rparr>
            else element);
          clipGeom = (case geom el of
              Some g \<Rightarrow> (if g \<noteq> [] \<and> g \<in> set clipShapeTypes then Some g else None)
            | None \<Rightarrow> None)
      in case rect el of
           Some rc \<Rightarrow> element\<lparr>clip := Some
               \<lparr>shape = (case clipGeom of Some g \<Rightarrow> g | None \<Rightarrow> ''rect''),
                range = ((opt_num_or (rect_l rc) 0, opt_num_or (rect_t rc) 0),
                         (100 - opt_num_or (rect_r rc) 0, 100 - opt_num_or (rect_b rc) 0))\<rparr>\<rparr>
         | None \<Rightarrow>
             (case clipGeom of
                Some g \<Rightarrow> element\<lparr>clip := Some \<lparr>shape = g, range = ((0, 0), (100, 100))\<rparr>\<rparr>
              | None \<Rightarrow> element))"

definition mathElement :: "string \<Rightarrow> BaseElement \<Rightarrow> PPTImageElement" where
  "mathElement newId el =
     \<lparr>PPTImageElement.type = ''image'',
      id' = newId,
      src = Some (BaseElement.picBase64 el),
      width = BaseElement.width el,
      height = BaseElement.height el,
      left = BaseElement.left el,
      top' = BaseElement.top' el,
      fixedRatio = True,
      rotate' = 0,
      flipH = None,
      flipV = None,
      outline = None,
      clip = None\<rparr>"

definition audioElement :: "Env \<Rightarrow> string \<Rightarrow> BaseElement \<Rightarrow> PPTAudioElement" where
  "audioElement env newId el =
     \<lparr>PPTAudioElement.type = ''audio'',
      id' = newId,
      src = blob el,
      width = BaseElement.width el,
      height = BaseElement.height el,
      left = BaseElement.left el,
      top' = BaseElement.top' el,
      rotate' = 0,
      fixedRatio = False,
      color = (case themeColors (theme env) of [] \<Rightarrow> None | c # _ \<Rightarrow> Some c),
      loop = False,
      autoplay = False\<rparr>"

definition videoElement :: "string \<Rightarrow> BaseElement \<Rightarrow> PPTVideoElement" where
  "videoElement newId el =
     \<lparr>PPTVideoElement.type = ''video'',
      id' = newId,
      src = (case blob el of
               Some b \<Rightarrow> (if b \<noteq> [] then Some b else BaseElement.src el)
             | None \<Rightarrow> BaseElement.src el),
      width = BaseElement.width el,
      height = BaseElement.height el,
      left = BaseElement.left el,
      top' = BaseElement.top' el,
      rotate' = 0,
      autoplay = False\<rparr>"

text \<open>
  The viewBox of a raw path, from its range. \<open>originWidth\<close> and \<open>originHeight\<close>
  are never \<open>0\<close>: the loop reads them as \<open>el.width || 1\<close> and \<open>el.height || 1\<close>.
\<close>

definition pathViewBox :: "SvgPathRange \<Rightarrow> real \<Rightarrow> real \<Rightarrow> real \<times> real" where
  "pathViewBox svgRange originWidth originHeight =
     (if js_gt (js_div (maxX svgRange) (maxY svgRange)) (js_div originWidth originHeight)
      then (maxX svgRange, maxX svgRange * originHeight / originWidth)
      else (maxY svgRange * originWidth / originHeight, maxY svgRange))"

text \<open>\<open>s.replace(/NaN/g, '0')\<close>.\<close>

fun replaceNaN :: "string \<Rightarrow> string" where
  "replaceNaN [] = []"
| "replaceNaN (c # cs) =
     (if startsWith (c # cs) ''NaN'' then CHR ''0'' # replaceNaN (drop 2 cs)
      else c # replaceNaN cs)"

definition vAlignMap :: "string \<Rightarrow> string option" where
  "vAlignMap k =
     (if k = ''mid'' then Some ''middle''
      else if k = ''down'' then Some ''bottom''
      else if k = ''up'' then Some ''top''
      else None)"

text \<open>The \<open>gradient\<close> of a shape: the rotation is the raw one.\<close>

definition shapeGradient :: "Env \<Rightarrow> Fill option \<Rightarrow> Gradient option" where
  "shapeGradient env f =
     (case f of
        Some (GradientFill v) \<Rightarrow> Some
          \<lparr>Gradient.type = (if GradientFillValue.path v = ''line'' then ''linear'' else ''radial''),
           colors = map (\<lambda>item. \<lparr>GradientColor.pos = parseInt env (RawGradientColor.pos item),
                                  color = RawGradientColor.color item\<rparr>)
                        (GradientFillValue.colors v),
           rotate' = rot v\<rparr>
      | _ \<Rightarrow> None)"

text \<open>The path and viewBox of a shape that the table knows.\<close>

definition tableShape :: "Env \<Rightarrow> ShapePoolItem \<Rightarrow> BaseElement \<Rightarrow> PPTShapeElement \<Rightarrow> error + PPTShapeElement" where
  "tableShape env item el element =
     (let element = element\<lparr>PPTShapeElement.path := ShapePoolItem.path item,
                             PPTShapeElement.viewBox := ShapePoolItem.viewBox item\<rparr>
      in case ShapePoolItem.pathFormula item of
           None \<Rightarrow> Inr element
         | Some name \<Rightarrow>
             (let element = element\<lparr>PPTShapeElement.pathFormula := Some name,
                     PPTShapeElement.viewBox := (BaseElement.width el, BaseElement.height el)\<rparr>
              in case SHAPE_PATH_FORMULAS env name of
                   None \<Rightarrow> Inl TypeError
                 | Some pf \<Rightarrow>
                     (if truthy (editable pf)
                      then Inr (element\<lparr>PPTShapeElement.path :=
                                   formula pf (BaseElement.width el) (BaseElement.height el)
                                     (defaultValue pf),
                                 keypoints := defaultValue pf\<rparr>)
                      else Inr (element\<lparr>PPTShapeElement.path :=
                                   formula pf (BaseElement.width el) (BaseElement.height el) None\<rparr>))))"

text \<open>
  \<open>if (el.shapType === 'custom')\<close>: \<open>el.path!.includes\<close> raises \<open>TypeError\<close> on an
  element without \<open>path\<close>.
\<close>

definition customShape :: "Env \<Rightarrow> BaseElement \<Rightarrow> real \<Rightarrow> real \<Rightarrow> PPTShapeElement \<Rightarrow> error + PPTShapeElement" where
  "customShape env el originWidth originHeight element =
     (case BaseElement.path el of
        None \<Rightarrow> Inl TypeError
      | Some p \<Rightarrow>
         (let element =
                (if includes' p ''NaN''
                 then (let element = (if PPTShapeElement.width element = 0
                              then element\<lparr>PPTShapeElement.width := 0.1\<rparr> else element);
                           element = (if PPTShapeElement.height element = 0
                              then element\<lparr>PPTShapeElement.height := 0.1\<rparr> else element)
                       in element\<lparr>PPTShapeElement.path := replaceNaN p\<rparr>)
                 else element\<lparr>special := Some True, PPTShapeElement.path := p\<rparr>)
          in Inr (element\<lparr>PPTShapeElement.viewBox :=
                    pathViewBox (getSvgPathRange env (PPTShapeElement.path element))
                      originWidth originHeight\<rparr>)))"

text \<open>
  The object literal \<open>element\<close> of the shape branch, with the shadow that the
  next statement adds: a rectangle, until the shape is resolved.
\<close>

definition shapeLiteral :: "Env \<Rightarrow> string \<Rightarrow> BaseElement \<Rightarrow> real \<Rightarrow> PPTShapeElement" where
  "shapeLiteral env newId el ratio =
     (let gradient = shapeGradient env (BaseElement.fill el);
          pattern = (case BaseElement.fill el of
                       Some (ImageFill v) \<Rightarrow> Some (ImageFillValue.picBase64 v) | _ \<Rightarrow> None);
          fill = (case BaseElement.fill el of Some (ColorFill c) \<Rightarrow> c | _ \<Rightarrow> []);
          opacity = (case BaseElement.fill el of Some (ImageFill v) \<Rightarrow> ImageFillValue.opacity v | _ \<Rightarrow> 1);
          element = \<lparr>PPTShapeElement.type = ''shape'',
            id' = newId,
            width = BaseElement.width el,
            height = BaseElement.height el,
            left = BaseElement.left el,
            top' = BaseElement.top' el,
            viewBox = (200, 200),
            path = ''M 0 0 L 200 0 L 200 200 L 0 200 Z'',
            fill = fill,
            gradient = gradient,
            pattern = pattern,
            opacity = opacity,
            fixedRatio = False,
            rotate' = BaseElement.rotate' el,
            outline = \<lparr>PPTElementOutline.color = BaseElement.borderColor el,
               width = toFixed2 (BaseElement.borderWidth el * ratio),
               style = BaseElement.borderType el\<rparr>,
            text' = \<lparr>ShapeText.content = convertFontSizePtToPx env (BaseElement.content el) ratio,
               defaultFontName = fontName (theme env),
               defaultColor = fontColor (theme env),
               align = (case vAlignMap (vAlign el) of Some a \<Rightarrow> a | None \<Rightarrow> ''middle'')\<rparr>,
            flipH = isFlipH el,
            flipV = isFlipV el,
            shadow = None,
            pathFormula = None,
            keypoints = None,
            special = None\<rparr>
      in case BaseElement.shadow el of
           Some sh \<Rightarrow> element\<lparr>PPTShapeElement.shadow := Some (scaleShadow sh ratio)\<rparr>
         | None \<Rightarrow> element)"

text \<open>
  The shape branch up to its last line: the element that \<open>if (element.path)\<close>
  then pushes or leaves out.
\<close>

definition shapeElement :: "Env \<Rightarrow> string \<Rightarrow> BaseElement \<Rightarrow> real \<Rightarrow> real \<Rightarrow> real \<Rightarrow> error + PPTShapeElement" where
  "shapeElement env newId el ratio originWidth originHeight =
     (let shape = find (\<lambda>item. pptxShapeType item = Some (shapType el)) (shapeList env);
          element = shapeLiteral env newId el ratio;
          resolved = (case shape of
              Some item \<Rightarrow> tableShape env item el element
            | None \<Rightarrow>
               (case BaseElement.path el of
                  Some p \<Rightarrow>
                    (if p \<noteq> [] \<and> \<not> includes' p ''NaN''
                     then Inr (element\<lparr>PPTShapeElement.path := p,
                            PPTShapeElement.viewBox :=
                              pathViewBox (getSvgPathRange env p) originWidth originHeight\<rparr>)
                     else Inr element)
                | None \<Rightarrow> Inr element))
      in case resolved of
           Inl err \<Rightarrow> Inl err
         | Inr element \<Rightarrow>
             (if shapType el = ''custom''
              then customShape env el originWidth originHeight element
              else Inr element))"

subsection \<open>Tables\<close>

definition tableCell :: "Env \<Rightarrow> string \<Rightarrow> TableCellData \<Rightarrow> real \<Rightarrow> TableCell" where
  "tableCell env newId cellData ratio =
     (let dom = cellDom env (TableCellData.text' cellData);
          align = (if textAlign dom \<noteq> [] then textAlign dom else ''left'');
          fontsize = (if fontSize dom \<noteq> []
                      then toFixed1 env (parseInt env (fontSize dom) * ratio) @ ''px'' else []);
          fontname = fontFamily dom;
          color = (if CellDom.color dom \<noteq> [] then Some (CellDom.color dom) else TableCellData.fontColor cellData)
      in \<lparr>TableCell.id' = newId,
          colspan = (case colSpan cellData of Some k \<Rightarrow> (if k \<noteq> 0 then k else 1) | None \<Rightarrow> 1),
          rowspan = (case rowSpan cellData of Some k \<Rightarrow> (if k \<noteq> 0 then k else 1) | None \<Rightarrow> 1),
          text' = innerText dom,
          style = \<lparr>fontname = fontname,
             color = color,
             align = (if align \<in> set [''left'', ''right'', ''center''] then align else ''left''),
             fontsize = fontsize,
             bold = fontBold cellData,
             backcolor = fillColor cellData\<rparr>\<rparr>)"

text \<open>
  \<open>colWidths\<close>: every raw width over their sum (\<open>reduce\<close> from \<open>0\<close>).
\<close>

definition normalizeColWidths :: "real list \<Rightarrow> jsnum list" where
  "normalizeColWidths ws =
     (let allWidth = foldl (\<lambda>a b. a + b) 0 ws
      in map (\<lambda>item. js_div item allWidth) ws)"

text \<open>\<open>a || b\<close> on optional objects.\<close>

definition or_else :: "'a option \<Rightarrow> 'a option \<Rightarrow> 'a option" where
  "or_else a b = (case a of Some x \<Rightarrow> Some x | None \<Rightarrow> b)"

definition side :: "(Borders \<Rightarrow> Border option) \<Rightarrow> Borders option \<Rightarrow> Border option" where
  "side f bs = (case bs of Some b \<Rightarrow> f b | None \<Rightarrow> None)"

text \<open>
  The table branch, from the number \<open>n\<close> of tokens taken so far to the table
  and the number of tokens taken after it: the cell \<open>(i, j)\<close> takes the token
  \<open>n + i * col + j\<close> and the table the one after the last cell. Reading \<open>el.data[0].length\<close> of a table
  without rows, a cell beyond the end of its row, or \<open>borders\<close> of the first
  cell of an empty first row raises \<open>TypeError\<close>.
\<close>

definition tableElement :: "Env \<Rightarrow> nat \<Rightarrow> BaseElement \<Rightarrow> real \<Rightarrow> error + PPTTableElement \<times> nat" where
  "tableElement env n el ratio =
     (case tableData el of
        [] \<Rightarrow> Inl TypeError
      | firstRow # _ \<Rightarrow>
         (let row = length (tableData el);
              col = length firstRow
          in if list_ex (\<lambda>r. length r < col) (tableData el) then Inl TypeError
             else case firstRow of
                [] \<Rightarrow> Inl TypeError
              | firstCell # _ \<Rightarrow>
                 (let data = map (\<lambda>(i, r).
                         map (\<lambda>(j, cellData). tableCell env (nanoid env (n + i * col + j)) cellData ratio)
                           (enumerate 0 (take col r)))
                       (enumerate 0 (tableData el));
                      colWidths = normalizeColWidths (BaseElement.colWidths el);
                      border =
                        or_else (side Borders.top' (TableCellData.borders firstCell))
                       (or_else (side bottom (TableCellData.borders firstCell))
                       (or_else (side Borders.top' (BaseElement.borders el))
                       (or_else (side bottom (BaseElement.borders el))
                       (or_else (side Borders.left (TableCellData.borders firstCell))
                       (or_else (side right (TableCellData.borders firstCell))
                       (or_else (side Borders.left (BaseElement.borders el))
                                (side right (BaseElement.borders el))))))));
                      borderWidth = (case border of Some b \<Rightarrow> opt_num_or (Border.borderWidth b) 0 | None \<Rightarrow> 0);
                      borderStyle = (case border of Some b \<Rightarrow> opt_str_or (Border.borderType b) ''solid''
                                     | None \<Rightarrow> ''solid'');
                      borderColor = (case border of Some b \<Rightarrow> opt_str_or (Border.borderColor b) ''#eeece1''
                                     | None \<Rightarrow> ''#eeece1'')
                  in Inr (\<lparr>PPTTableElement.type = ''table'',
                       id' = nanoid env (n + row * col),
                       width = BaseElement.width el,
                       height = BaseElement.height el,
                       left = BaseElement.left el,
                       top' = BaseElement.top' el,
                       colWidths = colWidths,
                       rotate' = 0,
                       data = data,
                       outline = \<lparr>PPTElementOutline.color = borderColor,
                          width = toFixed2 (num_or (borderWidth * ratio) 2),
                          style = borderStyle\<rparr>,
                       cellMinHeight = (case rowHeights el of
                           [] \<Rightarrow> 36
                         | h # _ \<Rightarrow> (if h \<noteq> 0 then h * ratio else 36))\<rparr>,
                     Suc (n + row * col)))))"

subsection \<open>Charts\<close>

text \<open>
  The \<open>switch\<close> on \<open>el.chartType\<close>: the internal chart type and the options,
  from the vendor chart type, \<open>el.barDir\<close> and \<open>el.grouping\<close>.
\<close>

definition convertChartType :: "string \<Rightarrow> string option \<Rightarrow> string option \<Rightarrow> string \<times> ChartOptions" where
  "convertChartType vendorType dir grp =
     (let stacked = \<lparr>stack = (if grp = Some ''stacked'' \<or> grp = Some ''percentStacked''
                                then Some True else None)\<rparr>;
          plain = \<lparr>stack = None\<rparr>
      in if vendorType = ''barChart'' \<or> vendorType = ''bar3DChart''
           then (if dir = Some ''bar'' then ''column'' else ''bar'', stacked)
         else if vendorType = ''lineChart'' \<or> vendorType = ''line3DChart'' then (''line'', stacked)
         else if vendorType = ''areaChart'' \<or> vendorType = ''area3DChart'' then (''area'', stacked)
         else if vendorType = ''scatterChart'' \<or> vendorType = ''bubbleChart'' then (''scatter'', plain)
         else if vendorType = ''pieChart'' \<or> vendorType = ''pie3DChart'' then (''pie'', plain)
         else if vendorType = ''radarChart'' then (''radar'', plain)
         else if vendorType = ''doughnutChart'' then (''ring'', plain)
         else (''bar'', plain))"

text \<open>A natural number in decimal, as a template literal prints it.\<close>

fun natToString :: "nat \<Rightarrow> string" where
  "natToString n =
     (if n < 10 then [char_of (48 + n)]
      else natToString (n div 10) @ [char_of (48 + n mod 10)])"

declare natToString.simps [simp del]

text \<open>
  The label of the scatter point \<open>index\<close>: the two characters U+5750 U+6807
  (in UTF-8) and \<open>index + 1\<close>.
\<close>

definition coordinateLabel :: "nat \<Rightarrow> string" where
  "coordinateLabel index =
     [char_of (229 :: nat), char_of (157 :: nat), char_of (144 :: nat),
      char_of (230 :: nat), char_of (160 :: nat), char_of (135 :: nat)] @ natToString (index + 1)"

text \<open>
  The chart branch. \<open>el.data[0]\<close> of a chart without data is \<open>undefined\<close>, and
  reading from it raises \<open>TypeError\<close>.
\<close>

definition chartElement :: "Env \<Rightarrow> string \<Rightarrow> BaseElement \<Rightarrow> error + PPTChartElement" where
  "chartElement env newId el =
     (let chartData =
            (if BaseElement.chartType el = ''scatterChart'' \<or> BaseElement.chartType el = ''bubbleChart''
             then (case scatterData el of
                     [] \<Rightarrow> Inl TypeError
                   | d0 # _ \<Rightarrow> Inr \<lparr>labels = map coordinateLabel [0..<length d0],
                                     legends = [''X'', ''Y''],
                                     series = scatterData el\<rparr>)
             else (case BaseElement.chartData el of
                     [] \<Rightarrow> Inl TypeError
                   | d0 # _ \<Rightarrow> Inr \<lparr>labels = xlabels d0,
                                     legends = map key (BaseElement.chartData el),
                                     series = map (\<lambda>item. map chart_y (values' item))
                                                (BaseElement.chartData el)\<rparr>));
          converted = convertChartType (BaseElement.chartType el) (barDir el) (grouping el)
      in case chartData of
           Inl err \<Rightarrow> Inl err
         | Inr d \<Rightarrow> Inr
             \<lparr>PPTChartElement.type = ''chart'',
              id' = newId,
              chartType = fst converted,
              width = BaseElement.width el,
              height = BaseElement.height el,
              left = BaseElement.left el,
              top' = BaseElement.top' el,
              rotate' = 0,
              themeColors = (case BaseElement.colors el of
                  Some cs \<Rightarrow> (if cs \<noteq> [] then cs else Theme.themeColors (theme env))
                | None \<Rightarrow> Theme.themeColors (theme env)),
              textColor = fontColor (theme env),
              data = d,
              options = snd converted\<rparr>)"

subsection \<open>Groups and diagrams\<close>

text \<open>
  The callback of \<open>el.elements.map\<close> in the branch of a group: a copy of the
  member \<open>el'\<close>, moved into the frame of the slide. \<open>el\<close> is the group, and the
  origin is the one the loop read before scaling.
\<close>

definition groupMember ::
  "BaseElement \<Rightarrow> real \<Rightarrow> real \<Rightarrow> real \<Rightarrow> real \<Rightarrow> Element \<Rightarrow> Element" where
  "groupMember el originLeft originTop originWidth originHeight el' =
     (let left = BaseElement.left (attrs el') + originLeft;
          top = BaseElement.top' (attrs el') + originTop;
          (left, top) = (if BaseElement.rotate' el \<noteq> 0
             then calculateRotatedPosition originLeft originTop originWidth originHeight
                    (BaseElement.left (attrs el')) (BaseElement.top' (attrs el'))
                    (BaseElement.rotate' el)
             else (left, top));
          element = withAttrs (\<lambda>a. a\<lparr>BaseElement.left := left, BaseElement.top' := top\<rparr>) el';
          element = (if truthy (isFlipH el) \<and> isFlipH (attrs element) \<noteq> None
             then withAttrs (\<lambda>a. a\<lparr>isFlipH := Some True\<rparr>) element else element);
          element = (if truthy (isFlipV el) \<and> isFlipV (attrs element) \<noteq> None
             then withAttrs (\<lambda>a. a\<lparr>isFlipV := Some True\<rparr>) element else element)
      in element)"

text \<open>
  The members of a group, moved and flipped: \<open>members\<close> is \<open>el.elements\<close>.
\<close>

definition groupChildren ::
  "BaseElement \<Rightarrow> Element list \<Rightarrow> real \<Rightarrow> real \<Rightarrow> real \<Rightarrow> real \<Rightarrow> Element list" where
  "groupChildren el members originLeft originTop originWidth originHeight =
     (let elements = map (groupMember el originLeft originTop originWidth originHeight) members;
          elements = (if truthy (isFlipH el) then flipGroupElements elements AxisY else elements);
          elements = (if truthy (isFlipV el) then flipGroupElements elements AxisX else elements)
      in elements)"

definition diagramChildren :: "Element list \<Rightarrow> real \<Rightarrow> real \<Rightarrow> Element list" where
  "diagramChildren members originLeft originTop =
     map (\<lambda>el'. withAttrs (\<lambda>a. a\<lparr>BaseElement.left := BaseElement.left (attrs el') + originLeft,
                                 BaseElement.top' := BaseElement.top' (attrs el') + originTop\<rparr>) el')
         members"

text \<open>The box \<open>(left, top, width, height)\<close> of a raw element.\<close>

definition rawBox :: "Element \<Rightarrow> real \<times> real \<times> real \<times> real" where
  "rawBox el = (BaseElement.left (attrs el), BaseElement.top' (attrs el),
                BaseElement.width (attrs el), BaseElement.height (attrs el))"

subsection \<open>\<open>parseElements\<close>\<close>

text \<open>\<open>elements.sort((a, b) => a.order - b.order)\<close>: a stable sort.\<close>

definition sortByOrder :: "Element list \<Rightarrow> Element list" where
  "sortByOrder els = sort_key (\<lambda>e. order (attrs e)) els"

text \<open>The number of raw elements of a tree, for the termination of the loop.\<close>

fun nodes :: "Element \<Rightarrow> nat" where
  "nodes (Element a es) = Suc (sum_list (map nodes es))"

text \<open>
  The state of the conversion of one slide: the slide under construction and
  the number of tokens that \<open>nanoid\<close> has returned.
\<close>

definition push :: "PPTElement \<Rightarrow> Slide \<times> nat \<Rightarrow> Slide \<times> nat" where
  "push e st = ((fst st)\<lparr>Slide.elements := Slide.elements (fst st) @ [e]\<rparr>, Suc (snd st))"

text \<open>
  The four assignments at the head of the loop body: \<open>el.width = el.width * ratio\<close>
  and the same for \<open>height\<close>, \<open>left\<close> and \<open>top\<close>.
\<close>

definition scaled :: "BaseElement \<Rightarrow> real \<Rightarrow> BaseElement" where
  "scaled el ratio =
     el\<lparr>BaseElement.width := BaseElement.width el * ratio,
        BaseElement.height := BaseElement.height el * ratio,
        BaseElement.left := BaseElement.left el * ratio,
        BaseElement.top' := BaseElement.top' el * ratio\<rparr>"

text \<open>
  The loop of \<open>parseElements\<close> over the sorted array. An exception leaves the
  loop, and every caller, with \<open>Inl\<close>. An element of an unknown \<open>type\<close> is passed
  over. The branch of a group or of a diagram runs \<open>parseElements\<close> on the moved
  members: the sort, then this loop.
\<close>

function parseLoop :: "Env \<Rightarrow> real \<Rightarrow> Element list \<Rightarrow> Slide \<times> nat \<Rightarrow> error + Slide \<times> nat" where
  "parseLoop env ratio [] st = Inr st"
| "parseLoop env ratio (e # rest) st =
     (let originWidth = num_or (BaseElement.width (attrs e)) 1;
          originHeight = num_or (BaseElement.height (attrs e)) 1;
          originLeft = BaseElement.left (attrs e);
          originTop = BaseElement.top' (attrs e);
          el = scaled (attrs e) ratio;
          newId = nanoid env (snd st);
          done =
           (if BaseElement.type el = ''text''
              then Inr (push (TextElement (textElement env newId el ratio)) st)
            else if BaseElement.type el = ''image''
              then Inr (push (ImageElement (imageElement env newId el ratio)) st)
            else if BaseElement.type el = ''math''
              then Inr (push (ImageElement (mathElement newId el)) st)
            else if BaseElement.type el = ''audio''
              then Inr (push (AudioElement (audioElement env newId el)) st)
            else if BaseElement.type el = ''video''
              then Inr (push (VideoElement (videoElement newId el)) st)
            else if BaseElement.type el = ''shape''
              then (if shapType el = ''line'' \<or> includes' (shapType el) ''Connector''
                    then Inr (push (LineElement (parseLineElement newId el ratio)) st)
                    else (case shapeElement env newId el ratio originWidth originHeight of
                            Inl err \<Rightarrow> Inl err
                          | Inr element \<Rightarrow>
                              (if PPTShapeElement.path element \<noteq> []
                               then Inr (push (ShapeElement element) st)
                               else Inr (fst st, Suc (snd st)))))
            else if BaseElement.type el = ''table''
              then (case tableElement env (snd st) el ratio of
                      Inl err \<Rightarrow> Inl err
                    | Inr (element, n) \<Rightarrow>
                        Inr ((fst st)\<lparr>Slide.elements := Slide.elements (fst st) @ [TableElement element]\<rparr>, n))
            else if BaseElement.type el = ''chart''
              then (case chartElement env newId el of
                      Inl err \<Rightarrow> Inl err
                    | Inr element \<Rightarrow> Inr (push (ChartElement element) st))
            else if BaseElement.type el = ''group''
              then parseLoop env ratio
                     (sortByOrder (groupChildren el (Element.elements e)
                        originLeft originTop originWidth originHeight)) st
            else if BaseElement.type el = ''diagram''
              then parseLoop env ratio
                     (sortByOrder (diagramChildren (Element.elements e) originLeft originTop)) st
            else Inr st)
      in case done of
           Inl err \<Rightarrow> Inl err
         | Inr st' \<Rightarrow> parseLoop env ratio rest st')"
  by pat_completeness auto

lemma nodes_withAttrs: "nodes (withAttrs f e) = nodes e"
  by (cases e) simp

lemma nodes_insort_key: "sum_list (map nodes (insort_key f x xs)) = nodes x + sum_list (map nodes xs)"
  by (induction xs) simp_all

lemma nodes_sortByOrder: "sum_list (map nodes (sortByOrder xs)) = sum_list (map nodes xs)"
  unfolding sortByOrder_def by (induction xs) (simp_all add: nodes_insort_key)

lemma nodes_flipGroupElements: "map nodes (flipGroupElements xs axis) = map nodes xs"
  unfolding flipGroupElements_def
  by (cases xs) (simp_all add: Let_def flipElement_def nodes_withAttrs comp_def split_beta)

lemma nodes_groupMember: "nodes (groupMember el oL oT oW oH el') = nodes el'"
  unfolding groupMember_def by (simp add: Let_def nodes_withAttrs split_beta)

lemma nodes_groupChildren:
  "map nodes (groupChildren el members oL oT oW oH) = map nodes members"
  unfolding groupChildren_def
  by (simp add: Let_def nodes_flipGroupElements nodes_groupMember comp_def)

lemma nodes_diagramChildren: "map nodes (diagramChildren members oL oT) = map nodes members"
  unfolding diagramChildren_def by (simp add: nodes_withAttrs comp_def)

lemma nodes_elements: "sum_list (map nodes (Element.elements e)) < nodes e"
  by (cases e) simp

termination parseLoop
proof (relation "measure (\<lambda>(env, ratio, els, st). sum_list (map nodes els))", goal_cases)
  case 1
  show ?case by simp
next
  case (2 env ratio e rest st)
  show ?case
    using nodes_elements [of e]
    by (simp add: nodes_sortByOrder nodes_groupChildren)
next
  case (3 env ratio e rest st)
  show ?case
    using nodes_elements [of e]
    by (simp add: nodes_sortByOrder nodes_diagramChildren)
next
  case (4 env ratio e rest st)
  show ?case by (cases e) simp
qed

declare parseLoop.simps(2) [simp del]

definition parseElements :: "Env \<Rightarrow> real \<Rightarrow> Element list \<Rightarrow> Slide \<times> nat \<Rightarrow> error + Slide \<times> nat" where
  "parseElements env ratio els st = parseLoop env ratio (sortByOrder els) st"

subsection \<open>\<open>processSlidesFromRawData\<close>\<close>

record RawSize =
  width :: real

record RawSlide =
  fill :: "Fill option"
  note' :: "string option"
  elements :: "Element list"
  layoutElements :: "Element list"

record RawDocument =
  size' :: "RawSize option"
  themeColors :: "string list option"
  slides :: "RawSlide list"

text \<open>The calls that the import makes on the store of slides.\<close>

datatype StoreCall = setViewportSize real | setTheme "string list"

text \<open>The calls on the store that set the width of the viewport.\<close>

fun isSetViewportSize :: "StoreCall \<Rightarrow> bool" where
  "isSetViewportSize (setViewportSize w) = True"
| "isSetViewportSize (setTheme cs) = False"

text \<open>
  The scale ratio and the viewport call: \<open>json.size?.width\<close> is falsy when
  \<open>size\<close> is absent or the width is \<open>0\<close>.
\<close>

definition scaleRatio :: "RawDocument \<Rightarrow> bool \<Rightarrow> real \<times> StoreCall list" where
  "scaleRatio json fixedViewport =
     (let ratio = 96 / 72
      in case size' json of
           Some sz \<Rightarrow>
             (if RawSize.width sz \<noteq> 0
              then (let width = RawSize.width sz
                    in if fixedViewport then (1000 / width, [])
                       else (ratio, [setViewportSize (width * ratio)]))
              else (ratio, []))
         | None \<Rightarrow> (ratio, []))"

text \<open>The background of a slide; an absent \<open>fill\<close> is a solid white one.\<close>

definition slideBackground :: "Env \<Rightarrow> Fill option \<Rightarrow> SlideBackground" where
  "slideBackground env f =
     (case f of
        Some (ImageFill v) \<Rightarrow>
          \<lparr>SlideBackground.type = ''image'',
           color = None,
           image = Some \<lparr>SlideBackgroundImage.src = ImageFillValue.picBase64 v, size' = ''cover''\<rparr>,
           gradient = None\<rparr>
      | Some (GradientFill v) \<Rightarrow>
          \<lparr>SlideBackground.type = ''gradient'',
           color = None,
           image = None,
           gradient = Some
             \<lparr>Gradient.type = (if GradientFillValue.path v = ''line'' then ''linear'' else ''radial''),
              colors = map (\<lambda>item. \<lparr>GradientColor.pos = parseInt env (RawGradientColor.pos item),
                                     color = RawGradientColor.color item\<rparr>)
                           (GradientFillValue.colors v),
              rotate' = rot v + 90\<rparr>\<rparr>
      | Some (ColorFill c) \<Rightarrow>
          \<lparr>SlideBackground.type = ''solid'',
           color = Some (if c \<noteq> [] then c else ''#fff''),
           image = None,
           gradient = None\<rparr>
      | None \<Rightarrow>
          \<lparr>SlideBackground.type = ''solid'',
           color = Some ''#fff'',
           image = None,
           gradient = None\<rparr>)"

text \<open>
  The loop over \<open>json.slides\<close>, from the number \<open>n\<close> of tokens taken so far.
\<close>

fun convertSlides :: "Env \<Rightarrow> real \<Rightarrow> nat \<Rightarrow> RawSlide list \<Rightarrow> error + Slide list" where
  "convertSlides env ratio n [] = Inr []"
| "convertSlides env ratio n (item # items) =
     (let slide = \<lparr>Slide.id' = nanoid env n,
            elements = [],
            background = slideBackground env (RawSlide.fill item),
            remark = opt_str_or (note' item) []\<rparr>
      in case parseElements env ratio (RawSlide.elements item @ layoutElements item) (slide, Suc n) of
           Inl err \<Rightarrow> Inl err
         | Inr (slide', n') \<Rightarrow>
             (case convertSlides env ratio n' items of
                Inl err \<Rightarrow> Inl err
              | Inr converted \<Rightarrow> Inr (slide' # converted)))"

text \<open>
  \<open>processSlidesFromRawData(json, {fixedViewport})\<close>: the calls made on the store,
  in order, and the slides or the exception.
\<close>

definition processSlidesFromRawData :: "Env \<Rightarrow> RawDocument \<Rightarrow> bool \<Rightarrow> StoreCall list \<times> (error + Slide list)" where
  "processSlidesFromRawData env json fixedViewport =
     (let (ratio, viewportCalls) = scaleRatio json fixedViewport;
          themeCalls = (case RawDocument.themeColors json of
                          Some cs \<Rightarrow> [setTheme cs] | None \<Rightarrow> [])
      in (viewportCalls @ themeCalls, convertSlides env ratio 0 (slides json)))"

subsection \<open>Example inputs\<close>

text \<open>
  A raw element with both flip flags false and every other optional part
  absent, from which the examples below are made by setting fields: a line of
  width \<open>100\<close> and height \<open>50\<close>.
\<close>

definition exampleElement :: BaseElement where
  "exampleElement =
     \<lparr>BaseElement.type = ''shape'', left = 0, top' = 0, width = 100, height = 50, rotate' = 0,
      isFlipH = Some False, isFlipV = Some False, order = 0, content = [],
      borderColor = ''#000'', borderWidth = 1, borderType = ''solid'', fill = None,
      isVertical = False, shadow = None, src = None, blob = None, geom = None, rect = None,
      picBase64 = [], shapType = ''line'', path = None, vAlign = ''mid'', tableData = [],
      colWidths = [], rowHeights = [], borders = None, chartType = [], scatterData = [],
      chartData = [], barDir = None, grouping = None, colors = None\<rparr>"

text \<open>
  Collaborators for the examples: a shape table with the rectangle only, no
  path formula, a path range that is \<open>0\<close> everywhere, and string functions
  that return their argument or a constant.
\<close>

definition exampleEnv :: Env where
  "exampleEnv =
     \<lparr>SHAPE_LIST = [\<lparr>ShapeListItem.type = ''rectangle'',
          children = [\<lparr>ShapePoolItem.viewBox = (200, 200),
             path = ''M 0 0 L 200 0 L 200 200 L 0 200 Z'',
             pathFormula = None, pptxShapeType = Some ''rect''\<rparr>]\<rparr>],
      SHAPE_PATH_FORMULAS = (\<lambda>name. None),
      getSvgPathRange = (\<lambda>p. \<lparr>minX = 0, minY = 0, maxX = 0, maxY = 0\<rparr>),
      theme = \<lparr>fontName = ''Arial'', fontColor = ''#333'', themeColors = [''#5b9bd5'']\<rparr>,
      nanoid = natToString,
      convertFontSizePtToPx = (\<lambda>html ratio. html),
      convertEmfDataUrlToPng = (\<lambda>s. s),
      cellDom = (\<lambda>html. \<lparr>textAlign = [], fontSize = [], fontFamily = [], color = [], innerText = html\<rparr>),
      parseInt = (\<lambda>s. 0),
      toFixed1 = (\<lambda>x. ''0.0'')\<rparr>"

text \<open>A raw document of width \<open>960\<close> without slides.\<close>

definition exampleDocument :: RawDocument where
  "exampleDocument = \<lparr>size' = Some \<lparr>RawSize.width = 960\<rparr>, themeColors = None, slides = []\<rparr>"

text \<open>A pie chart with one series.\<close>

definition exampleChart :: BaseElement where
  "exampleChart = exampleElement\<lparr>BaseElement.type := ''chart'', BaseElement.chartType := ''pieChart'',
     BaseElement.chartData :=
       [\<lparr>key = ''Sales'', values' = [\<lparr>chart_x = ''Q1'', chart_y = 3\<rparr>], xlabels = [''Q1'']\<rparr>]\<rparr>"

text \<open>A rectangle filled with a linear gradient at \<open>45\<close> degrees.\<close>

definition exampleGradient :: GradientFillValue where
  "exampleGradient = \<lparr>GradientFillValue.path = ''line'', rot = 45,
     colors = [\<lparr>RawGradientColor.pos = ''0%'', color = ''#fff''\<rparr>]\<rparr>"

definition exampleShape :: BaseElement where
  "exampleShape = exampleElement\<lparr>shapType := ''rect'', BaseElement.fill := Some (GradientFill exampleGradient)\<rparr>"

text \<open>A table of two rows and two columns, of column widths \<open>1\<close> and \<open>3\<close>.\<close>

definition exampleCell :: TableCellData where
  "exampleCell = \<lparr>TableCellData.text' = ''a'', colSpan = None, rowSpan = None, fontColor = None,
     fontBold = None, fillColor = None, borders = None\<rparr>"

definition exampleTable :: BaseElement where
  "exampleTable = exampleElement\<lparr>BaseElement.type := ''table'',
     tableData := [[exampleCell, exampleCell], [exampleCell, exampleCell]],
     BaseElement.colWidths := [1, 3]\<rparr>"


text \<open>An empty slide, and a text of width \<open>100\<close> and height \<open>50\<close> at \<open>(10, 20)\<close>.\<close>

definition exampleSlide :: Slide where
  "exampleSlide = \<lparr>Slide.id' = ''slide'', elements = [],
     background = slideBackground exampleEnv None, remark = []\<rparr>"

definition exampleText :: BaseElement where
  "exampleText = exampleElement\<lparr>BaseElement.type := ''text'', BaseElement.left := 10,
     BaseElement.top' := 20\<rparr>"

text \<open>
  A shape of a type that the table does not know, without a raw path, and a
  custom shape whose raw path is the empty string.
\<close>

definition exampleUnknownShape :: BaseElement where
  "exampleUnknownShape = exampleElement\<lparr>shapType := ''cloud''\<rparr>"

definition exampleEmptyCustomShape :: BaseElement where
  "exampleEmptyCustomShape = exampleElement\<lparr>shapType := ''custom'', BaseElement.path := Some []\<rparr>"

text \<open>
  A group at \<open>(5, 7)\<close>, without rotation or flip, of two texts at \<open>(10, 20)\<close> and
  \<open>(40, 20)\<close>.
\<close>

definition exampleGroup :: Element where
  "exampleGroup =
     Element (exampleElement\<lparr>BaseElement.type := ''group'', BaseElement.left := 5,
                BaseElement.top' := 7, BaseElement.width := 200, BaseElement.height := 100\<rparr>)
       [Element exampleText [],
        Element (exampleText\<lparr>BaseElement.left := 40, order := 1\<rparr>) []]"

text \<open>
  A document whose only slide holds the example group, and a diagram at
  \<open>(5, 7)\<close>, of width \<open>200\<close> and height \<open>100\<close>, that carries a rotation of \<open>180\<close>
  degrees and holds the example text.
\<close>

definition exampleGroupDocument :: RawDocument where
  "exampleGroupDocument =
     \<lparr>size' = Some \<lparr>RawSize.width = 960\<rparr>, themeColors = None,
      slides = [\<lparr>RawSlide.fill = None, note' = None, elements = [exampleGroup], layoutElements = []\<rparr>]\<rparr>"

definition exampleRotatedDiagram :: Element where
  "exampleRotatedDiagram =
     Element (exampleElement\<lparr>BaseElement.type := ''diagram'', BaseElement.left := 5,
                BaseElement.top' := 7, BaseElement.width := 200, BaseElement.height := 100,
                BaseElement.rotate' := 180\<rparr>)
       [Element exampleText []]"

section \<open>Properties\<close>

subsection \<open>Lines and connectors\<close>



text \<open>
  C2, as the claim states it, at a line with \<open>isFlipV\<close> only: the claim puts the
  start at the top-right corner \<open>[100, 0]\<close> and the end at the bottom-left corner
  \<open>[0, 50]\<close>; the line starts at the bottom-left corner and ends at the top-right
  one.
\<close>

theorem line_flipV_only_counterexample:
  "PPTLineElement.start (parseLineElement ''id'' (exampleElement\<lparr>isFlipV := Some True\<rparr>) 1) = (0, 50)
   \<and> PPTLineElement.end' (parseLineElement ''id'' (exampleElement\<lparr>isFlipV := Some True\<rparr>) 1) = (100, 0)
   \<and> \<not> (PPTLineElement.start (parseLineElement ''id'' (exampleElement\<lparr>isFlipV := Some True\<rparr>) 1) = (100, 0)
        \<and> PPTLineElement.end' (parseLineElement ''id'' (exampleElement\<lparr>isFlipV := Some True\<rparr>) 1) = (0, 50))"
  by (simp add: parseLineElement_def lineEndpoints_def Let_def exampleElement_def truthy_def)

text \<open>
  C2, amended. For a line element without rotation the start and the end are
  chosen by \<open>(isFlipV, isFlipH)\<close>: neither, from the top-left corner \<open>[0, 0]\<close> to
  the bottom-right corner \<open>[width, height]\<close>; both, from \<open>[width, height]\<close> to
  \<open>[0, 0]\<close>; \<open>isFlipV\<close> only, from the bottom-left corner \<open>[0, height]\<close> to the
  top-right corner \<open>[width, 0]\<close>; \<open>isFlipH\<close> only, from the top-right corner
  \<open>[width, 0]\<close> to the bottom-left corner \<open>[0, height]\<close>.
\<close>

theorem line_endpoints_lookup:
  assumes "BaseElement.rotate' el = 0"
  shows "(\<not> truthy (isFlipV el) \<and> \<not> truthy (isFlipH el) \<longrightarrow>
            PPTLineElement.start (parseLineElement newId el ratio) = (0, 0)
          \<and> PPTLineElement.end' (parseLineElement newId el ratio)
              = (BaseElement.width el, BaseElement.height el))
       \<and> (truthy (isFlipV el) \<and> truthy (isFlipH el) \<longrightarrow>
            PPTLineElement.start (parseLineElement newId el ratio)
              = (BaseElement.width el, BaseElement.height el)
          \<and> PPTLineElement.end' (parseLineElement newId el ratio) = (0, 0))
       \<and> (truthy (isFlipV el) \<and> \<not> truthy (isFlipH el) \<longrightarrow>
            PPTLineElement.start (parseLineElement newId el ratio) = (0, BaseElement.height el)
          \<and> PPTLineElement.end' (parseLineElement newId el ratio) = (BaseElement.width el, 0))
       \<and> (\<not> truthy (isFlipV el) \<and> truthy (isFlipH el) \<longrightarrow>
            PPTLineElement.start (parseLineElement newId el ratio) = (BaseElement.width el, 0)
          \<and> PPTLineElement.end' (parseLineElement newId el ratio) = (0, BaseElement.height el))"
  using assms by (simp add: parseLineElement_def lineEndpoints_def Let_def)

theorem line_endpoints_lookup_witness:
  "(PPTLineElement.start (parseLineElement ''id'' exampleElement 1) = (0, 0)
    \<and> PPTLineElement.end' (parseLineElement ''id'' exampleElement 1) = (100, 50))
   \<and> (PPTLineElement.start (parseLineElement ''id''
          (exampleElement\<lparr>isFlipV := Some True, isFlipH := Some True\<rparr>) 1) = (100, 50)
    \<and> PPTLineElement.end' (parseLineElement ''id''
          (exampleElement\<lparr>isFlipV := Some True, isFlipH := Some True\<rparr>) 1) = (0, 0))
   \<and> (PPTLineElement.start (parseLineElement ''id'' (exampleElement\<lparr>isFlipV := Some True\<rparr>) 1) = (0, 50)
    \<and> PPTLineElement.end' (parseLineElement ''id'' (exampleElement\<lparr>isFlipV := Some True\<rparr>) 1) = (100, 0))
   \<and> (PPTLineElement.start (parseLineElement ''id'' (exampleElement\<lparr>isFlipH := Some True\<rparr>) 1) = (100, 0)
    \<and> PPTLineElement.end' (parseLineElement ''id'' (exampleElement\<lparr>isFlipH := Some True\<rparr>) 1) = (0, 50))"
  using line_endpoints_lookup [of exampleElement "''id''" 1]
    line_endpoints_lookup [of "exampleElement\<lparr>isFlipV := Some True, isFlipH := Some True\<rparr>" "''id''" 1]
    line_endpoints_lookup [of "exampleElement\<lparr>isFlipV := Some True\<rparr>" "''id''" 1]
    line_endpoints_lookup [of "exampleElement\<lparr>isFlipH := Some True\<rparr>" "''id''" 1]
  by (simp add: exampleElement_def truthy_def)

subsection \<open>The viewport\<close>

text \<open>
  C3, as the claim states it, at a document of width \<open>960\<close> imported with the
  fixed-viewport option: no call sets the width of the viewport.
\<close>

theorem viewport_fixed_counterexample:
  "filter isSetViewportSize (fst (processSlidesFromRawData exampleEnv exampleDocument True)) = []"
  by (simp add: processSlidesFromRawData_def scaleRatio_def exampleDocument_def Let_def)

text \<open>
  C3, amended. For a raw document that declares a canvas width other than \<open>0\<close>:
  without the fixed-viewport option exactly one call sets the width of the
  viewport, to the declared width times \<open>96/72\<close>, and the slides are converted
  with the ratio \<open>96/72\<close>; with the option no call sets it, and the slides are
  converted with the ratio \<open>1000 / width\<close>.
\<close>

theorem viewport_update:
  assumes "size' json = Some sz" and "RawSize.width sz \<noteq> 0"
  shows "filter isSetViewportSize (fst (processSlidesFromRawData env json fixedViewport))
           = (if fixedViewport then [] else [setViewportSize (RawSize.width sz * (96 / 72))])
       \<and> snd (processSlidesFromRawData env json fixedViewport)
           = convertSlides env (if fixedViewport then 1000 / RawSize.width sz else 96 / 72) 0 (slides json)"
  using assms
  by (simp add: processSlidesFromRawData_def scaleRatio_def Let_def split: option.splits)

theorem viewport_update_witness:
  "filter isSetViewportSize (fst (processSlidesFromRawData exampleEnv exampleDocument False))
           = [setViewportSize 1280]
   \<and> filter isSetViewportSize (fst (processSlidesFromRawData exampleEnv exampleDocument True)) = []
   \<and> snd (processSlidesFromRawData exampleEnv exampleDocument True) = Inr []"
  using viewport_update [of exampleDocument "\<lparr>RawSize.width = 960\<rparr>" exampleEnv False]
     viewport_update [of exampleDocument "\<lparr>RawSize.width = 960\<rparr>" exampleEnv True]
  by (simp add: exampleDocument_def)

subsection \<open>Chart types\<close>

text \<open>
  C6. The switch on the vendor chart type gives one internal chart type for
  every string: \<open>barChart\<close> and \<open>bar3DChart\<close> give \<open>bar\<close>, or \<open>column\<close> when the
  bar direction is \<open>bar\<close>; \<open>lineChart\<close> and \<open>line3DChart\<close> give \<open>line\<close>; \<open>areaChart\<close>
  and \<open>area3DChart\<close> give \<open>area\<close>; \<open>scatterChart\<close> and \<open>bubbleChart\<close> give
  \<open>scatter\<close>; \<open>pieChart\<close> and \<open>pie3DChart\<close> give \<open>pie\<close>; \<open>radarChart\<close> gives
  \<open>radar\<close>; \<open>doughnutChart\<close> gives \<open>ring\<close>; any other string gives \<open>bar\<close>. It is
  the chart type of the converted chart.
\<close>

theorem chart_type_mapping:
  "fst (convertChartType ''barChart'' dir grp) = (if dir = Some ''bar'' then ''column'' else ''bar'')
   \<and> fst (convertChartType ''bar3DChart'' dir grp) = (if dir = Some ''bar'' then ''column'' else ''bar'')
   \<and> fst (convertChartType ''lineChart'' dir grp) = ''line''
   \<and> fst (convertChartType ''line3DChart'' dir grp) = ''line''
   \<and> fst (convertChartType ''areaChart'' dir grp) = ''area''
   \<and> fst (convertChartType ''area3DChart'' dir grp) = ''area''
   \<and> fst (convertChartType ''scatterChart'' dir grp) = ''scatter''
   \<and> fst (convertChartType ''bubbleChart'' dir grp) = ''scatter''
   \<and> fst (convertChartType ''pieChart'' dir grp) = ''pie''
   \<and> fst (convertChartType ''pie3DChart'' dir grp) = ''pie''
   \<and> fst (convertChartType ''radarChart'' dir grp) = ''radar''
   \<and> fst (convertChartType ''doughnutChart'' dir grp) = ''ring''
   \<and> (vendorType \<notin> set [''barChart'', ''bar3DChart'', ''lineChart'', ''line3DChart'', ''areaChart'',
          ''area3DChart'', ''scatterChart'', ''bubbleChart'', ''pieChart'', ''pie3DChart'',
          ''radarChart'', ''doughnutChart''] \<longrightarrow>
        fst (convertChartType vendorType dir grp) = ''bar'')
   \<and> (chartElement env newId el = Inr c \<longrightarrow>
        PPTChartElement.chartType c
          = fst (convertChartType (BaseElement.chartType el) (barDir el) (grouping el)))"
  by (auto simp add: convertChartType_def chartElement_def Let_def split: list.splits if_splits)

theorem chart_type_mapping_witness:
  "fst (convertChartType ''funnelChart'' (Some ''col'') None) = ''bar''
   \<and> fst (convertChartType ''barChart'' (Some ''bar'') None) = ''column''
   \<and> PPTChartElement.chartType (projr (chartElement exampleEnv ''id'' exampleChart)) = ''pie''"
proof -
  have "\<exists>c. chartElement exampleEnv ''id'' exampleChart = Inr c"
    by (simp add: chartElement_def exampleChart_def exampleElement_def Let_def)
  then obtain c where c: "chartElement exampleEnv ''id'' exampleChart = Inr c" ..
  have t: "BaseElement.chartType exampleChart = ''pieChart''" "barDir exampleChart = None"
    "grouping exampleChart = None"
    by (simp_all add: exampleChart_def exampleElement_def)
  show ?thesis
    using chart_type_mapping [of "Some ''col''" None "''funnelChart''" exampleEnv "''id''" exampleChart c]
      chart_type_mapping [of "Some ''bar''" None "''funnelChart''" exampleEnv "''id''" exampleChart c]
      chart_type_mapping [of None None "''funnelChart''" exampleEnv "''id''" exampleChart c]
    by (simp add: c t)
qed

subsection \<open>Gradients\<close>

lemma tableShape_gradient:
  "tableShape env item el x = Inr y \<Longrightarrow> PPTShapeElement.gradient y = PPTShapeElement.gradient x"
  by (auto simp add: tableShape_def Let_def split: option.splits if_splits)

lemma customShape_gradient:
  "customShape env el ow oh x = Inr y \<Longrightarrow> PPTShapeElement.gradient y = PPTShapeElement.gradient x"
  by (auto simp add: customShape_def Let_def split: option.splits if_splits)

lemma shapeElement_gradient:
  assumes "shapeElement env newId el ratio ow oh = Inr e"
  shows "PPTShapeElement.gradient e = shapeGradient env (BaseElement.fill el)"
  using assms
  by (auto simp add: shapeElement_def shapeLiteral_def Let_def split: option.splits if_splits sum.splits
      dest!: tableShape_gradient customShape_gradient)

text \<open>
  C10. The gradient of a shape whose fill is a gradient has the raw rotation,
  unchanged; the gradient of a slide background has the raw rotation plus
  \<open>90\<close>. In both the type is \<open>linear\<close> when the raw \<open>path\<close> is \<open>line\<close> and \<open>radial\<close>
  otherwise.
\<close>

theorem gradient_rotation:
  assumes "BaseElement.fill el = Some (GradientFill v)"
    and "shapeElement env newId el ratio ow oh = Inr e"
  shows "(\<exists>g. PPTShapeElement.gradient e = Some g \<and> Gradient.rotate' g = rot v
            \<and> Gradient.type g = (if GradientFillValue.path v = ''line'' then ''linear'' else ''radial''))
       \<and> (\<exists>g. SlideBackground.gradient (slideBackground env (Some (GradientFill v))) = Some g
            \<and> Gradient.rotate' g = rot v + 90
            \<and> Gradient.type g = (if GradientFillValue.path v = ''line'' then ''linear'' else ''radial''))"
  using shapeElement_gradient [OF assms(2)] assms(1)
  by (simp add: shapeGradient_def slideBackground_def)

theorem gradient_rotation_witness:
  "map_option Gradient.rotate' (PPTShapeElement.gradient
       (projr (shapeElement exampleEnv ''id'' exampleShape 1 100 50))) = Some 45
   \<and> map_option Gradient.type (PPTShapeElement.gradient
       (projr (shapeElement exampleEnv ''id'' exampleShape 1 100 50))) = Some ''linear''
   \<and> map_option Gradient.rotate' (SlideBackground.gradient
       (slideBackground exampleEnv (Some (GradientFill exampleGradient)))) = Some 135
   \<and> map_option Gradient.type (SlideBackground.gradient
       (slideBackground exampleEnv (Some (GradientFill exampleGradient)))) = Some ''linear''"
proof -
  have "\<exists>e. shapeElement exampleEnv ''id'' exampleShape 1 100 50 = Inr e"
    by (simp add: shapeElement_def shapeLiteral_def tableShape_def shapeList_def exampleEnv_def
        exampleShape_def exampleElement_def Let_def)
  then obtain e where e: "shapeElement exampleEnv ''id'' exampleShape 1 100 50 = Inr e" ..
  have f: "BaseElement.fill exampleShape = Some (GradientFill exampleGradient)"
    by (simp add: exampleShape_def)
  have v: "rot exampleGradient = 45" "GradientFillValue.path exampleGradient = ''line''"
    by (simp_all add: exampleGradient_def)
  show ?thesis
    using gradient_rotation [OF f e] by (auto simp add: e v)
qed

subsection \<open>Column widths of a table\<close>

lemma foldl_plus_sum_list: "foldl (\<lambda>a b. a + b) (s :: real) ws = s + sum_list ws"
  by (induction ws arbitrary: s) simp_all

lemma foldl_js_add_Fin:
  "foldl js_add (Fin a) (map (\<lambda>w. Fin (w / s)) ws) = Fin (a + sum_list ws / s)"
  by (induction ws arbitrary: a) (simp_all add: add_divide_distrib)

lemma normalizeColWidths_nonzero:
  assumes "sum_list ws \<noteq> 0"
  shows "normalizeColWidths ws = map (\<lambda>w. Fin (w / sum_list ws)) ws"
  using assms by (simp add: normalizeColWidths_def Let_def foldl_plus_sum_list js_div_def)

lemma tableElement_colWidths:
  "tableElement env n el ratio = Inr r \<Longrightarrow>
     PPTTableElement.colWidths (fst r) = normalizeColWidths (BaseElement.colWidths el)"
  by (auto simp add: tableElement_def Let_def split: list.splits if_splits)

lemma exampleTable_converts:
  "\<exists>r. tableElement env n (exampleTable\<lparr>BaseElement.colWidths := ws\<rparr>) ratio = Inr r"
  by (simp add: tableElement_def exampleTable_def exampleElement_def Let_def)

text \<open>
  C5, as the claim states it, at a table whose two raw column widths are \<open>0\<close>:
  every output width is \<open>0 / 0\<close>, and their sum is \<open>NaN\<close>, not \<open>1\<close>.
\<close>

theorem col_widths_zero_counterexample:
  "map_sum id (foldl js_add (Fin 0) \<circ> PPTTableElement.colWidths \<circ> fst)
     (tableElement exampleEnv 0 (exampleTable\<lparr>BaseElement.colWidths := [0, 0]\<rparr>) 1) = Inr NaN
   \<and> NaN \<noteq> Fin 1"
proof -
  obtain r where r: "tableElement exampleEnv 0 (exampleTable\<lparr>BaseElement.colWidths := [0, 0]\<rparr>) 1 = Inr r"
    using exampleTable_converts [of exampleEnv 0 "[0, 0]" 1] by auto
  have "PPTTableElement.colWidths (fst r) = [NaN, NaN]"
    using tableElement_colWidths [OF r] by (simp add: normalizeColWidths_def js_div_def)
  then show ?thesis by (simp add: r)
qed

text \<open>
  C5, amended. For a raw table whose column widths have a sum other than \<open>0\<close>,
  the column widths of the converted table are the raw ones, each divided by
  that sum, and they sum to \<open>1\<close>; the raw widths \<open>[1, 3]\<close> give \<open>[0.25, 0.75]\<close>.
\<close>

theorem col_widths_normalized:
  assumes "tableElement env n el ratio = Inr r" and "sum_list (BaseElement.colWidths el) \<noteq> 0"
  shows "PPTTableElement.colWidths (fst r)
           = map (\<lambda>w. Fin (w / sum_list (BaseElement.colWidths el))) (BaseElement.colWidths el)
       \<and> foldl js_add (Fin 0) (PPTTableElement.colWidths (fst r)) = Fin 1"
  using assms
  by (simp add: tableElement_colWidths normalizeColWidths_nonzero foldl_js_add_Fin)

theorem col_widths_normalized_witness:
  "PPTTableElement.colWidths (fst (projr (tableElement exampleEnv 0 exampleTable 1)))
     = [Fin (1 / 4), Fin (3 / 4)]
   \<and> foldl js_add (Fin 0)
       (PPTTableElement.colWidths (fst (projr (tableElement exampleEnv 0 exampleTable 1)))) = Fin 1"
proof -
  have w: "exampleTable\<lparr>BaseElement.colWidths := [1, 3]\<rparr> = exampleTable"
    by (simp add: exampleTable_def)
  obtain r where r: "tableElement exampleEnv 0 exampleTable 1 = Inr r"
    using exampleTable_converts [of exampleEnv 0 "[1, 3]" 1] by (auto simp add: w)
  have s: "BaseElement.colWidths exampleTable = [1, 3]"
    by (simp add: exampleTable_def)
  show ?thesis
    using col_widths_normalized [OF r] by (simp add: r s)
qed

subsection \<open>Flipping the members of a group\<close>

lemma attrs_withAttrs: "attrs (withAttrs f e) = f (attrs e)"
  by (cases e) simp

lemma elements_withAttrs: "Element.elements (withAttrs f e) = Element.elements e"
  by (cases e) simp


















subsection \<open>The loop, branch by branch\<close>

lemma scaled_fields:
  "BaseElement.type (scaled a r) = BaseElement.type a"
  "shapType (scaled a r) = shapType a"
  "BaseElement.left (scaled a r) = BaseElement.left a * r"
  "BaseElement.top' (scaled a r) = BaseElement.top' a * r"
  "BaseElement.width (scaled a r) = BaseElement.width a * r"
  "BaseElement.height (scaled a r) = BaseElement.height a * r"
  by (simp_all add: scaled_def)

lemma parseLoop_text:
  assumes "BaseElement.type (attrs e) = ''text''"
  shows "parseLoop env ratio (e # rest) st
           = parseLoop env ratio rest
               (push (TextElement (textElement env (nanoid env (snd st)) (scaled (attrs e) ratio) ratio)) st)"
  using assms by (simp add: parseLoop.simps(2) Let_def scaled_fields)

lemma parseLoop_image:
  assumes "BaseElement.type (attrs e) = ''image''"
  shows "parseLoop env ratio (e # rest) st
           = parseLoop env ratio rest
               (push (ImageElement (imageElement env (nanoid env (snd st)) (scaled (attrs e) ratio) ratio)) st)"
  using assms by (simp add: parseLoop.simps(2) Let_def scaled_fields)

lemma parseLoop_math:
  assumes "BaseElement.type (attrs e) = ''math''"
  shows "parseLoop env ratio (e # rest) st
           = parseLoop env ratio rest
               (push (ImageElement (mathElement (nanoid env (snd st)) (scaled (attrs e) ratio))) st)"
  using assms by (simp add: parseLoop.simps(2) Let_def scaled_fields)

lemma parseLoop_audio:
  assumes "BaseElement.type (attrs e) = ''audio''"
  shows "parseLoop env ratio (e # rest) st
           = parseLoop env ratio rest
               (push (AudioElement (audioElement env (nanoid env (snd st)) (scaled (attrs e) ratio))) st)"
  using assms by (simp add: parseLoop.simps(2) Let_def scaled_fields)

lemma parseLoop_video:
  assumes "BaseElement.type (attrs e) = ''video''"
  shows "parseLoop env ratio (e # rest) st
           = parseLoop env ratio rest
               (push (VideoElement (videoElement (nanoid env (snd st)) (scaled (attrs e) ratio))) st)"
  using assms by (simp add: parseLoop.simps(2) Let_def scaled_fields)

lemma parseLoop_line:
  assumes "BaseElement.type (attrs e) = ''shape''"
    and "shapType (attrs e) = ''line'' \<or> includes' (shapType (attrs e)) ''Connector''"
  shows "parseLoop env ratio (e # rest) st
           = parseLoop env ratio rest
               (push (LineElement (parseLineElement (nanoid env (snd st)) (scaled (attrs e) ratio) ratio)) st)"
  using assms by (simp add: parseLoop.simps(2) Let_def scaled_fields)

lemma parseLoop_shape:
  assumes "BaseElement.type (attrs e) = ''shape''"
    and "\<not> (shapType (attrs e) = ''line'' \<or> includes' (shapType (attrs e)) ''Connector'')"
  shows "parseLoop env ratio (e # rest) st
           = (case shapeElement env (nanoid env (snd st)) (scaled (attrs e) ratio) ratio
                    (num_or (BaseElement.width (attrs e)) 1) (num_or (BaseElement.height (attrs e)) 1) of
                Inl err \<Rightarrow> Inl err
              | Inr element \<Rightarrow>
                  parseLoop env ratio rest
                    (if PPTShapeElement.path element \<noteq> [] then push (ShapeElement element) st
                     else (fst st, Suc (snd st))))"
  using assms by (simp add: parseLoop.simps(2) Let_def scaled_fields split: sum.splits)

lemma parseLoop_table:
  assumes "BaseElement.type (attrs e) = ''table''"
  shows "parseLoop env ratio (e # rest) st
           = (case tableElement env (snd st) (scaled (attrs e) ratio) ratio of
                Inl err \<Rightarrow> Inl err
              | Inr (element, n) \<Rightarrow>
                  parseLoop env ratio rest
                    ((fst st)\<lparr>Slide.elements := Slide.elements (fst st) @ [TableElement element]\<rparr>, n))"
  using assms by (simp add: parseLoop.simps(2) Let_def scaled_fields split: sum.splits prod.splits)

lemma parseLoop_chart:
  assumes "BaseElement.type (attrs e) = ''chart''"
  shows "parseLoop env ratio (e # rest) st
           = (case chartElement env (nanoid env (snd st)) (scaled (attrs e) ratio) of
                Inl err \<Rightarrow> Inl err
              | Inr element \<Rightarrow> parseLoop env ratio rest (push (ChartElement element) st))"
  using assms by (simp add: parseLoop.simps(2) Let_def scaled_fields split: sum.splits)

lemma parseLoop_group:
  assumes "BaseElement.type (attrs e) = ''group''"
  shows "parseLoop env ratio (e # rest) st
           = (case parseElements env ratio
                     (groupChildren (scaled (attrs e) ratio) (Element.elements e)
                        (BaseElement.left (attrs e)) (BaseElement.top' (attrs e))
                        (num_or (BaseElement.width (attrs e)) 1) (num_or (BaseElement.height (attrs e)) 1)) st of
                Inl err \<Rightarrow> Inl err
              | Inr st' \<Rightarrow> parseLoop env ratio rest st')"
  using assms by (simp add: parseLoop.simps(2) Let_def scaled_fields parseElements_def)

lemma parseLoop_diagram:
  assumes "BaseElement.type (attrs e) = ''diagram''"
  shows "parseLoop env ratio (e # rest) st
           = (case parseElements env ratio
                     (diagramChildren (Element.elements e)
                        (BaseElement.left (attrs e)) (BaseElement.top' (attrs e))) st of
                Inl err \<Rightarrow> Inl err
              | Inr st' \<Rightarrow> parseLoop env ratio rest st')"
  using assms by (simp add: parseLoop.simps(2) Let_def scaled_fields parseElements_def)

lemma parseLoop_other:
  assumes "BaseElement.type (attrs e) \<notin> set [''text'', ''image'', ''math'', ''audio'', ''video'',
             ''shape'', ''table'', ''chart'', ''group'', ''diagram'']"
  shows "parseLoop env ratio (e # rest) st = parseLoop env ratio rest st"
  using assms by (simp add: parseLoop.simps(2) Let_def scaled_fields)


subsection \<open>The kinds of the converted elements\<close>

lemma nodes_pos: "0 < nodes e"
  by (cases e) simp

lemma textElement_type: "PPTTextElement.type (textElement env i el r) = ''text''"
  by (simp add: textElement_def Let_def split: option.splits)

lemma imageElement_type: "PPTImageElement.type (imageElement env i el r) = ''image''"
  by (simp add: imageElement_def Let_def split: option.splits)

lemma mathElement_type: "PPTImageElement.type (mathElement i el) = ''image''"
  by (simp add: mathElement_def)

lemma audioElement_type: "PPTAudioElement.type (audioElement env i el) = ''audio''"
  by (simp add: audioElement_def)

lemma videoElement_type: "PPTVideoElement.type (videoElement i el) = ''video''"
  by (simp add: videoElement_def)

lemma parseLineElement_type: "PPTLineElement.type (parseLineElement i el r) = ''line''"
  by (simp add: parseLineElement_def Let_def)

lemma tableShape_type:
  "tableShape env item el x = Inr y \<Longrightarrow> PPTShapeElement.type y = PPTShapeElement.type x"
  by (auto simp add: tableShape_def Let_def split: option.splits if_splits)

lemma customShape_type:
  "customShape env el ow oh x = Inr y \<Longrightarrow> PPTShapeElement.type y = PPTShapeElement.type x"
  by (auto simp add: customShape_def Let_def split: option.splits if_splits)

lemma shapeElement_type:
  assumes "shapeElement env i el r ow oh = Inr y"
  shows "PPTShapeElement.type y = ''shape''"
  using assms
  by (auto simp add: shapeElement_def shapeLiteral_def Let_def split: option.splits if_splits sum.splits
      dest!: tableShape_type customShape_type)

lemma tableElement_type:
  "tableElement env n el r = Inr y \<Longrightarrow> PPTTableElement.type (fst y) = ''table''"
  by (auto simp add: tableElement_def Let_def split: list.splits if_splits)

lemma chartElement_type:
  "chartElement env i el = Inr y \<Longrightarrow> PPTChartElement.type y = ''chart''"
  by (auto simp add: chartElement_def Let_def split: list.splits if_splits sum.splits)

lemma push_elements: "Slide.elements (fst (push x st)) = Slide.elements (fst st) @ [x]"
  by (simp add: push_def)

lemma parseLoop_kinds:
  assumes "parseLoop env ratio els st = Inr st'"
    and "\<forall>x\<in>set (Slide.elements (fst st)). elementType x \<in> set convertedKinds"
  shows "\<forall>x\<in>set (Slide.elements (fst st')). elementType x \<in> set convertedKinds"
  using assms
proof (induction "sum_list (map nodes els)" arbitrary: els st st' rule: less_induct)
  case less
  show ?case
  proof (cases els)
    case Nil
    then show ?thesis using less.prems by simp
  next
    case (Cons e rest)
    have small: "sum_list (map nodes rest) < sum_list (map nodes els)"
      using nodes_pos [of e] by (simp add: Cons)
    have run: "parseLoop env ratio (e # rest) st = Inr st'"
      using less.prems(1) by (simp add: Cons)
    have leaf: "\<forall>x\<in>set (Slide.elements (fst st')). elementType x \<in> set convertedKinds"
      if "parseLoop env ratio rest (push y st) = Inr st'" and "elementType y \<in> set convertedKinds" for y
      using less.hyps [OF small that(1)] less.prems(2) that(2) by (simp add: push_elements)
    consider (textKind) "BaseElement.type (attrs e) = ''text''"
      | (image) "BaseElement.type (attrs e) = ''image''"
      | (math) "BaseElement.type (attrs e) = ''math''"
      | (audio) "BaseElement.type (attrs e) = ''audio''"
      | (video) "BaseElement.type (attrs e) = ''video''"
      | (line) "BaseElement.type (attrs e) = ''shape''"
          "shapType (attrs e) = ''line'' \<or> includes' (shapType (attrs e)) ''Connector''"
      | (shape) "BaseElement.type (attrs e) = ''shape''"
          "\<not> (shapType (attrs e) = ''line'' \<or> includes' (shapType (attrs e)) ''Connector'')"
      | (table) "BaseElement.type (attrs e) = ''table''"
      | (chart) "BaseElement.type (attrs e) = ''chart''"
      | (group) "BaseElement.type (attrs e) = ''group''"
      | (diagram) "BaseElement.type (attrs e) = ''diagram''"
      | (other) "BaseElement.type (attrs e) \<notin> set [''text'', ''image'', ''math'', ''audio'', ''video'',
             ''shape'', ''table'', ''chart'', ''group'', ''diagram'']"
      by auto
    then show ?thesis
    proof cases
      case textKind
      show ?thesis
        using run leaf by (simp add: parseLoop_text [OF textKind] textElement_type convertedKinds_def)
    next
      case image
      show ?thesis
        using run leaf by (simp add: parseLoop_image [OF image] imageElement_type convertedKinds_def)
    next
      case math
      show ?thesis
        using run leaf by (simp add: parseLoop_math [OF math] mathElement_type convertedKinds_def)
    next
      case audio
      show ?thesis
        using run leaf by (simp add: parseLoop_audio [OF audio] audioElement_type convertedKinds_def)
    next
      case video
      show ?thesis
        using run leaf by (simp add: parseLoop_video [OF video] videoElement_type convertedKinds_def)
    next
      case line
      show ?thesis
        using run leaf by (simp add: parseLoop_line [OF line] parseLineElement_type convertedKinds_def)
    next
      case shape
      from run obtain y where y: "shapeElement env (nanoid env (snd st)) (scaled (attrs e) ratio) ratio
            (num_or (BaseElement.width (attrs e)) 1) (num_or (BaseElement.height (attrs e)) 1) = Inr y"
        and next': "parseLoop env ratio rest
              (if PPTShapeElement.path y \<noteq> [] then push (ShapeElement y) st else (fst st, Suc (snd st)))
            = Inr st'"
        by (auto simp add: parseLoop_shape [OF shape] split: sum.splits)
      show ?thesis
      proof (cases "PPTShapeElement.path y \<noteq> []")
        case True
        then show ?thesis
          using next' leaf [of "ShapeElement y"] shapeElement_type [OF y] by (simp add: convertedKinds_def)
      next
        case False
        then show ?thesis
          using next' less.hyps [OF small, of "(fst st, Suc (snd st))" st'] less.prems(2) by simp
      qed
    next
      case table
      from run obtain y where y: "tableElement env (snd st) (scaled (attrs e) ratio) ratio = Inr y"
        and next': "parseLoop env ratio rest
              ((fst st)\<lparr>Slide.elements := Slide.elements (fst st) @ [TableElement (fst y)]\<rparr>, snd y) = Inr st'"
        by (auto simp add: parseLoop_table [OF table] split: sum.splits prod.splits)
      show ?thesis
        using less.hyps [OF small next'] less.prems(2) tableElement_type [OF y]
        by (simp add: convertedKinds_def)
    next
      case chart
      from run obtain y where y: "chartElement env (nanoid env (snd st)) (scaled (attrs e) ratio) = Inr y"
        and next': "parseLoop env ratio rest (push (ChartElement y) st) = Inr st'"
        by (auto simp add: parseLoop_chart [OF chart] split: sum.splits)
      show ?thesis
        using leaf [OF next'] chartElement_type [OF y] by (simp add: convertedKinds_def)
    next
      case group
      let ?children = "groupChildren (scaled (attrs e) ratio) (Element.elements e)
           (BaseElement.left (attrs e)) (BaseElement.top' (attrs e))
           (num_or (BaseElement.width (attrs e)) 1) (num_or (BaseElement.height (attrs e)) 1)"
      from run obtain st1 where inner: "parseLoop env ratio (sortByOrder ?children) st = Inr st1"
        and next': "parseLoop env ratio rest st1 = Inr st'"
        by (auto simp add: parseLoop_group [OF group] parseElements_def split: sum.splits)
      have "sum_list (map nodes (sortByOrder ?children)) < sum_list (map nodes els)"
        using nodes_elements [of e] by (simp add: Cons nodes_sortByOrder nodes_groupChildren)
      from less.hyps [OF this inner less.prems(2)]
      show ?thesis using less.hyps [OF small next'] by simp
    next
      case diagram
      let ?children = "diagramChildren (Element.elements e)
           (BaseElement.left (attrs e)) (BaseElement.top' (attrs e))"
      from run obtain st1 where inner: "parseLoop env ratio (sortByOrder ?children) st = Inr st1"
        and next': "parseLoop env ratio rest st1 = Inr st'"
        by (auto simp add: parseLoop_diagram [OF diagram] parseElements_def split: sum.splits)
      have "sum_list (map nodes (sortByOrder ?children)) < sum_list (map nodes els)"
        using nodes_elements [of e] by (simp add: Cons nodes_sortByOrder nodes_diagramChildren)
      from less.hyps [OF this inner less.prems(2)]
      show ?thesis using less.hyps [OF small next'] by simp
    next
      case other
      show ?thesis
        using run less.hyps [OF small _ less.prems(2)] by (simp add: parseLoop_other [OF other])
    qed
  qed
qed

lemma convertSlides_kinds:
  assumes "convertSlides env ratio n items = Inr converted"
  shows "\<forall>slide\<in>set converted. \<forall>x\<in>set (Slide.elements slide). elementType x \<in> set convertedKinds"
  using assms
proof (induction items arbitrary: n converted)
  case Nil
  then show ?case by simp
next
  case (Cons item items)
  let ?slide = "\<lparr>Slide.id' = nanoid env n, elements = [],
      background = slideBackground env (RawSlide.fill item), remark = opt_str_or (note' item) []\<rparr>"
  from Cons.prems obtain slide' n' tl' where
    one: "parseElements env ratio (RawSlide.elements item @ layoutElements item) (?slide, Suc n) = Inr (slide', n')"
    and more: "convertSlides env ratio n' items = Inr tl'"
    and all: "converted = slide' # tl'"
    by (auto simp add: Let_def split: sum.splits prod.splits)
  have "\<forall>x\<in>set (Slide.elements (fst (slide', n'))). elementType x \<in> set convertedKinds"
    using one unfolding parseElements_def by (rule parseLoop_kinds) simp
  then show ?case using Cons.IH [OF more] by (simp add: all)
qed


subsection \<open>The boxes of the members of a group\<close>

lemma rawBox_fields:
  assumes "map rawBox xs = map rawBox ys"
  shows "map (\<lambda>el. BaseElement.left (attrs el)) xs = map (\<lambda>el. BaseElement.left (attrs el)) ys"
    and "map (\<lambda>el. BaseElement.left (attrs el) + BaseElement.width (attrs el)) xs
         = map (\<lambda>el. BaseElement.left (attrs el) + BaseElement.width (attrs el)) ys"
    and "map (\<lambda>el. BaseElement.top' (attrs el)) xs = map (\<lambda>el. BaseElement.top' (attrs el)) ys"
    and "map (\<lambda>el. BaseElement.top' (attrs el) + BaseElement.height (attrs el)) xs
         = map (\<lambda>el. BaseElement.top' (attrs el) + BaseElement.height (attrs el)) ys"
proof -
  have "map (f \<circ> rawBox) xs = map (f \<circ> rawBox) ys" for f :: "real \<times> real \<times> real \<times> real \<Rightarrow> real"
    using assms by (metis map_map)
  from this [of "\<lambda>(l, t, w, h). l"] this [of "\<lambda>(l, t, w, h). l + w"]
    this [of "\<lambda>(l, t, w, h). t"] this [of "\<lambda>(l, t, w, h). t + h"]
  show "map (\<lambda>el. BaseElement.left (attrs el)) xs = map (\<lambda>el. BaseElement.left (attrs el)) ys"
    and "map (\<lambda>el. BaseElement.left (attrs el) + BaseElement.width (attrs el)) xs
         = map (\<lambda>el. BaseElement.left (attrs el) + BaseElement.width (attrs el)) ys"
    and "map (\<lambda>el. BaseElement.top' (attrs el)) xs = map (\<lambda>el. BaseElement.top' (attrs el)) ys"
    and "map (\<lambda>el. BaseElement.top' (attrs el) + BaseElement.height (attrs el)) xs
         = map (\<lambda>el. BaseElement.top' (attrs el) + BaseElement.height (attrs el)) ys"
    by (simp_all add: comp_def rawBox_def)
qed

lemma boundingCenter_rawBox:
  assumes "rawBox x = rawBox y" and "map rawBox xs = map rawBox ys"
  shows "boundingCenter x xs = boundingCenter y ys"
  using assms(1) rawBox_fields [OF assms(2)]
  by (simp add: boundingCenter_def Let_def rawBox_def)

lemma rawBox_flipElement:
  assumes "rawBox x = rawBox y"
  shows "rawBox (flipElement axis cx cy x) = rawBox (flipElement axis cx cy y)"
  using assms by (cases axis) (simp_all add: rawBox_def flipElement_def Let_def attrs_withAttrs)

lemma rawBox_flipGroupElements:
  assumes "map rawBox xs = map rawBox ys"
  shows "map rawBox (flipGroupElements xs axis) = map rawBox (flipGroupElements ys axis)"
proof (cases xs)
  case Nil
  then show ?thesis using assms by (simp add: flipGroupElements_def)
next
  case (Cons x xs')
  then obtain y ys' where ys: "ys = y # ys'" using assms by (cases ys) auto
  have h: "rawBox x = rawBox y" and t: "map rawBox xs' = map rawBox ys'"
    using assms by (simp_all add: Cons ys)
  obtain cx cy where c: "boundingCenter x xs' = (cx, cy)" by (cases "boundingCenter x xs'")
  have c': "boundingCenter y ys' = (cx, cy)"
    using boundingCenter_rawBox [OF h t] c by simp
  have "map rawBox (map (flipElement axis cx cy) xs') = map rawBox (map (flipElement axis cx cy) ys')"
    using t
  proof (induction xs' arbitrary: ys')
    case Nil
    then show ?case by simp
  next
    case (Cons a as)
    then obtain b bs where "ys' = b # bs" by (cases ys') auto
    then show ?case using Cons rawBox_flipElement [of a b axis cx cy] by simp
  qed
  then show ?thesis
    using rawBox_flipElement [OF h, of axis cx cy]
    by (simp add: flipGroupElements_def Cons ys c c')
qed

subsection \<open>Groups and diagrams are flattened\<close>

lemma rawBox_groupMember:
  "rawBox (groupMember g oL oT oW oH c)
     = ((if BaseElement.rotate' g \<noteq> 0
         then fst (calculateRotatedPosition oL oT oW oH (BaseElement.left (attrs c))
                     (BaseElement.top' (attrs c)) (BaseElement.rotate' g))
         else BaseElement.left (attrs c) + oL),
        (if BaseElement.rotate' g \<noteq> 0
         then snd (calculateRotatedPosition oL oT oW oH (BaseElement.left (attrs c))
                     (BaseElement.top' (attrs c)) (BaseElement.rotate' g))
         else BaseElement.top' (attrs c) + oT),
        BaseElement.width (attrs c), BaseElement.height (attrs c))"
  by (simp add: groupMember_def Let_def rawBox_def attrs_withAttrs split_beta)

lemma rawBox_diagramChildren:
  "map rawBox (diagramChildren members oL oT)
     = map (\<lambda>c. (BaseElement.left (attrs c) + oL, BaseElement.top' (attrs c) + oT,
                  BaseElement.width (attrs c), BaseElement.height (attrs c))) members"
  by (simp add: diagramChildren_def rawBox_def attrs_withAttrs)

lemma sortByOrder_single: "sortByOrder [e] = [e]"
  by (simp add: sortByOrder_def)

lemma parseElements_group:
  assumes "BaseElement.type (attrs e) = ''group''"
  shows "parseElements env ratio [e] st
           = parseElements env ratio
               (groupChildren (scaled (attrs e) ratio) (Element.elements e)
                  (BaseElement.left (attrs e)) (BaseElement.top' (attrs e))
                  (num_or (BaseElement.width (attrs e)) 1) (num_or (BaseElement.height (attrs e)) 1)) st"
  by (simp add: parseElements_def [of env ratio "[e]"] sortByOrder_single parseLoop_group [OF assms]
      split: sum.splits)

lemma parseElements_diagram:
  assumes "BaseElement.type (attrs e) = ''diagram''"
  shows "parseElements env ratio [e] st
           = parseElements env ratio
               (diagramChildren (Element.elements e)
                  (BaseElement.left (attrs e)) (BaseElement.top' (attrs e))) st"
  by (simp add: parseElements_def [of env ratio "[e]"] sortByOrder_single parseLoop_diagram [OF assms]
      split: sum.splits)

lemma processSlides_kinds:
  assumes "snd (processSlidesFromRawData env json fixedViewport) = Inr converted"
  shows "\<forall>slide\<in>set converted. \<forall>x\<in>set (Slide.elements slide). elementType x \<in> set convertedKinds"
  using assms
  by (auto simp add: processSlidesFromRawData_def Let_def split_beta dest!: convertSlides_kinds)

lemma exampleGroup_attrs:
  "BaseElement.left (attrs exampleGroup) = 5" "BaseElement.top' (attrs exampleGroup) = 7"
  "BaseElement.width (attrs exampleGroup) = 200" "BaseElement.height (attrs exampleGroup) = 100"
  "BaseElement.rotate' (attrs exampleGroup) = 0" "isFlipH (attrs exampleGroup) = Some False"
  "isFlipV (attrs exampleGroup) = Some False" "BaseElement.type (attrs exampleGroup) = ''group''"
  "Element.elements exampleGroup = [Element exampleText [],
        Element (exampleText\<lparr>BaseElement.left := 40, order := 1\<rparr>) []]"
  by (simp_all add: exampleGroup_def exampleElement_def)


lemma scaled_flags:
  "BaseElement.rotate' (scaled a r) = BaseElement.rotate' a"
  "isFlipH (scaled a r) = isFlipH a" "isFlipV (scaled a r) = isFlipV a"
  by (simp_all add: scaled_def)

lemma exampleText_attrs:
  "BaseElement.left exampleText = 10" "BaseElement.top' exampleText = 20"
  "isFlipH exampleText = Some False" "isFlipV exampleText = Some False"
  "BaseElement.type exampleText = ''text''" "order exampleText = 0"
  "BaseElement.width exampleText = 100" "BaseElement.height exampleText = 50"
  by (simp_all add: exampleText_def exampleElement_def)

lemma exampleGroup_groupChildren:
  "groupChildren (scaled (attrs exampleGroup) ratio) (Element.elements exampleGroup)
        (BaseElement.left (attrs exampleGroup)) (BaseElement.top' (attrs exampleGroup))
        (num_or (BaseElement.width (attrs exampleGroup)) 1)
        (num_or (BaseElement.height (attrs exampleGroup)) 1)
   = [Element (exampleText\<lparr>BaseElement.left := 15, BaseElement.top' := 27\<rparr>) [],
      Element (exampleText\<lparr>BaseElement.left := 45, BaseElement.top' := 27, order := 1\<rparr>) []]"
  by (simp add: exampleGroup_attrs groupChildren_def groupMember_def scaled_flags truthy_def Let_def
      exampleText_attrs)


lemma exampleGroup_sorted:
  "sortByOrder [Element (exampleText\<lparr>BaseElement.left := 15, BaseElement.top' := 27\<rparr>) [],
      Element (exampleText\<lparr>BaseElement.left := 45, BaseElement.top' := 27, order := 1\<rparr>) []]
   = [Element (exampleText\<lparr>BaseElement.left := 15, BaseElement.top' := 27\<rparr>) [],
      Element (exampleText\<lparr>BaseElement.left := 45, BaseElement.top' := 27, order := 1\<rparr>) []]"
  by (simp add: sortByOrder_def exampleText_attrs)

lemma exampleGroup_children:
  "parseElements exampleEnv ratio
     (groupChildren (scaled (attrs exampleGroup) ratio) (Element.elements exampleGroup)
        (BaseElement.left (attrs exampleGroup)) (BaseElement.top' (attrs exampleGroup))
        (num_or (BaseElement.width (attrs exampleGroup)) 1)
        (num_or (BaseElement.height (attrs exampleGroup)) 1)) st
   = Inr (push (TextElement (textElement exampleEnv (nanoid exampleEnv (Suc (snd st)))
                  (scaled (exampleText\<lparr>BaseElement.left := 45, BaseElement.top' := 27, order := 1\<rparr>) ratio) ratio))
          (push (TextElement (textElement exampleEnv (nanoid exampleEnv (snd st))
                  (scaled (exampleText\<lparr>BaseElement.left := 15, BaseElement.top' := 27\<rparr>) ratio) ratio)) st))"
  unfolding exampleGroup_groupChildren parseElements_def exampleGroup_sorted
  by (simp add: parseLoop_text exampleText_attrs push_def)


lemma textElement_fields:
  "PPTTextElement.type (textElement env i el r) = ''text''"
  "PPTTextElement.left (textElement env i el r) = BaseElement.left el"
  "PPTTextElement.top' (textElement env i el r) = BaseElement.top' el"
  "PPTTextElement.width (textElement env i el r) = BaseElement.width el"
  "PPTTextElement.height (textElement env i el r) = BaseElement.height el"
  "PPTElementOutline.width (PPTTextElement.outline (textElement env i el r))
     = toFixed2 (BaseElement.borderWidth el * r)"
  "PPTTextElement.shadow (textElement env i el r)
     = map_option (\<lambda>sh. scaleShadow sh r) (BaseElement.shadow el)"
  by (simp_all add: textElement_def Let_def split: option.splits)

lemma exampleRotatedDiagram_attrs:
  "BaseElement.left (attrs exampleRotatedDiagram) = 5" "BaseElement.top' (attrs exampleRotatedDiagram) = 7"
  "BaseElement.type (attrs exampleRotatedDiagram) = ''diagram''"
  "Element.elements exampleRotatedDiagram = [Element exampleText []]"
  by (simp_all add: exampleRotatedDiagram_def exampleElement_def)

text \<open>
  C9, as the claim states it, at a diagram that carries a rotation of \<open>180\<close>
  degrees, with ratio \<open>1\<close>: its member at \<open>(10, 20)\<close> is converted at the
  translated position \<open>(15, 27)\<close>, not at the position \<open>(195, 87)\<close> that
  \<open>calculateRotatedPosition\<close> gives for the rotated container.
\<close>

theorem diagram_rotation_counterexample:
  "map elementBox (Slide.elements (fst (projr
       (parseElements exampleEnv 1 [exampleRotatedDiagram] (exampleSlide, 0)))))
     = [Some (15, 27, 100, 50)]
   \<and> calculateRotatedPosition 5 7 200 100 10 20 180 = (195, 87)"
proof -
  have children: "diagramChildren (Element.elements exampleRotatedDiagram)
        (BaseElement.left (attrs exampleRotatedDiagram)) (BaseElement.top' (attrs exampleRotatedDiagram))
      = [Element (exampleText\<lparr>BaseElement.left := 15, BaseElement.top' := 27\<rparr>) []]"
    by (simp add: exampleRotatedDiagram_attrs diagramChildren_def exampleText_attrs)
  have run: "parseElements exampleEnv 1 [exampleRotatedDiagram] (exampleSlide, 0)
      = Inr (push (TextElement (textElement exampleEnv (nanoid exampleEnv 0)
                (scaled (exampleText\<lparr>BaseElement.left := 15, BaseElement.top' := 27\<rparr>) 1) 1))
              (exampleSlide, 0))"
    unfolding parseElements_diagram [OF exampleRotatedDiagram_attrs(3)] children
    by (simp add: parseElements_def sortByOrder_single parseLoop_text exampleText_attrs)
  have box: "map elementBox (Slide.elements (fst (projr
       (parseElements exampleEnv 1 [exampleRotatedDiagram] (exampleSlide, 0)))))
     = [Some (15, 27, 100, 50)]"
    unfolding run
    by (simp add: push_elements textElement_fields scaled_fields exampleText_attrs exampleSlide_def)
  have rot: "calculateRotatedPosition 5 7 200 100 10 20 180 = (195, 87)"
    by (simp add: calculateRotatedPosition_def Let_def)
  show ?thesis using box rot by simp
qed

text \<open>
  C9, amended. No converted element of any slide is of kind \<open>group\<close> or
  \<open>diagram\<close>: every one is of a kind that a converter writes. Converting a group
  is converting its members, moved and flipped, as elements of the same slide:
  each member is translated by the raw origin of the group, or placed by
  \<open>calculateRotatedPosition\<close> when the group is rotated, and the members are
  then flipped about their joint bounding box when the group is flipped.
  Converting a diagram is converting its members, translated by the raw origin
  of the diagram and nothing else.
\<close>

theorem group_flattening:
  "(snd (processSlidesFromRawData env json fixedViewport) = Inr converted \<longrightarrow>
      (\<forall>slide\<in>set converted. \<forall>x\<in>set (Slide.elements slide).
          elementType x \<in> set convertedKinds \<and> elementType x \<noteq> ''group''
        \<and> elementType x \<noteq> ''diagram''))
   \<and> (BaseElement.type (attrs e) = ''group'' \<longrightarrow>
        parseElements env ratio [e] st
          = parseElements env ratio
              (groupChildren (scaled (attrs e) ratio) (Element.elements e)
                 (BaseElement.left (attrs e)) (BaseElement.top' (attrs e))
                 (num_or (BaseElement.width (attrs e)) 1) (num_or (BaseElement.height (attrs e)) 1)) st)
   \<and> (BaseElement.type (attrs e) = ''diagram'' \<longrightarrow>
        parseElements env ratio [e] st
          = parseElements env ratio
              (diagramChildren (Element.elements e)
                 (BaseElement.left (attrs e)) (BaseElement.top' (attrs e))) st)
   \<and> groupChildren g members oL oT oW oH
        = (if truthy (isFlipV g) then (\<lambda>xs. flipGroupElements xs AxisX) else id)
            ((if truthy (isFlipH g) then (\<lambda>xs. flipGroupElements xs AxisY) else id)
               (map (groupMember g oL oT oW oH) members))
   \<and> map rawBox (map (groupMember g oL oT oW oH) members)
        = map (\<lambda>c.
            ((if BaseElement.rotate' g \<noteq> 0
              then fst (calculateRotatedPosition oL oT oW oH (BaseElement.left (attrs c))
                          (BaseElement.top' (attrs c)) (BaseElement.rotate' g))
              else BaseElement.left (attrs c) + oL),
             (if BaseElement.rotate' g \<noteq> 0
              then snd (calculateRotatedPosition oL oT oW oH (BaseElement.left (attrs c))
                          (BaseElement.top' (attrs c)) (BaseElement.rotate' g))
              else BaseElement.top' (attrs c) + oT),
             BaseElement.width (attrs c), BaseElement.height (attrs c))) members
   \<and> map rawBox (diagramChildren members oL oT)
        = map (\<lambda>c. (BaseElement.left (attrs c) + oL, BaseElement.top' (attrs c) + oT,
                     BaseElement.width (attrs c), BaseElement.height (attrs c))) members"
proof -
  have kinds: "elementType x \<noteq> ''group'' \<and> elementType x \<noteq> ''diagram''"
    if "elementType x \<in> set convertedKinds" for x
    using that by (auto simp add: convertedKinds_def)
  have 1: "snd (processSlidesFromRawData env json fixedViewport) = Inr converted \<longrightarrow>
      (\<forall>slide\<in>set converted. \<forall>x\<in>set (Slide.elements slide).
          elementType x \<in> set convertedKinds \<and> elementType x \<noteq> ''group''
        \<and> elementType x \<noteq> ''diagram'')"
    using processSlides_kinds [of env json fixedViewport converted] kinds by blast
  have 4: "groupChildren g members oL oT oW oH
        = (if truthy (isFlipV g) then (\<lambda>xs. flipGroupElements xs AxisX) else id)
            ((if truthy (isFlipH g) then (\<lambda>xs. flipGroupElements xs AxisY) else id)
               (map (groupMember g oL oT oW oH) members))"
    by (simp add: groupChildren_def Let_def)
  have 5: "map rawBox (map (groupMember g oL oT oW oH) members)
        = map (\<lambda>c.
            ((if BaseElement.rotate' g \<noteq> 0
              then fst (calculateRotatedPosition oL oT oW oH (BaseElement.left (attrs c))
                          (BaseElement.top' (attrs c)) (BaseElement.rotate' g))
              else BaseElement.left (attrs c) + oL),
             (if BaseElement.rotate' g \<noteq> 0
              then snd (calculateRotatedPosition oL oT oW oH (BaseElement.left (attrs c))
                          (BaseElement.top' (attrs c)) (BaseElement.rotate' g))
              else BaseElement.top' (attrs c) + oT),
             BaseElement.width (attrs c), BaseElement.height (attrs c))) members"
    by (simp add: rawBox_groupMember comp_def)
  show ?thesis
    using 1 4 5 parseElements_group [of e env ratio st] parseElements_diagram [of e env ratio st]
      rawBox_diagramChildren [of members oL oT]
    by blast
qed

theorem group_flattening_witness:
  "list_all (\<lambda>slide. list_all (\<lambda>x. elementType x \<noteq> ''group'' \<and> elementType x \<noteq> ''diagram'')
        (Slide.elements slide))
      (projr (snd (processSlidesFromRawData exampleEnv exampleGroupDocument False)))
   \<and> map (map elementType \<circ> Slide.elements)
        (projr (snd (processSlidesFromRawData exampleEnv exampleGroupDocument False)))
      = [[''text'', ''text'']]
   \<and> map elementBox (Slide.elements (fst (projr
        (parseElements exampleEnv 2 [exampleGroup] (exampleSlide, 0)))))
      = [Some (30, 54, 200, 100), Some (90, 54, 200, 100)]"
proof -
  note inst = group_flattening [of exampleEnv exampleGroupDocument False
      "projr (snd (processSlidesFromRawData exampleEnv exampleGroupDocument False))"
      exampleGroup 2 "(exampleSlide, 0)" "attrs exampleGroup" "[]" 0 0 1 1]
  have g: "BaseElement.type (attrs exampleGroup) = ''group''"
    by (rule exampleGroup_attrs)
  have flat: "parseElements exampleEnv ratio [exampleGroup] st
      = Inr (push (TextElement (textElement exampleEnv (nanoid exampleEnv (Suc (snd st)))
                  (scaled (exampleText\<lparr>BaseElement.left := 45, BaseElement.top' := 27, order := 1\<rparr>) ratio) ratio))
          (push (TextElement (textElement exampleEnv (nanoid exampleEnv (snd st))
                  (scaled (exampleText\<lparr>BaseElement.left := 15, BaseElement.top' := 27\<rparr>) ratio) ratio)) st))"
    for ratio st
    using parseElements_group [OF g, of exampleEnv ratio st] by (simp only: exampleGroup_children)
  have doc: "snd (processSlidesFromRawData exampleEnv exampleGroupDocument False)
      = convertSlides exampleEnv (96 / 72) 0
          [\<lparr>RawSlide.fill = None, note' = None, elements = [exampleGroup], layoutElements = []\<rparr>]"
    by (simp add: processSlidesFromRawData_def scaleRatio_def exampleGroupDocument_def Let_def)
  have "\<exists>slide. snd (processSlidesFromRawData exampleEnv exampleGroupDocument False) = Inr [slide]
      \<and> map elementType (Slide.elements slide) = [''text'', ''text'']"
    unfolding doc
    by (simp add: Let_def flat push_def textElement_fields)
  then obtain slide where
    c: "snd (processSlidesFromRawData exampleEnv exampleGroupDocument False) = Inr [slide]"
    and k: "map elementType (Slide.elements slide) = [''text'', ''text'']"
    by (elim exE conjE)
  have 1: "list_all (\<lambda>slide. list_all (\<lambda>x. elementType x \<noteq> ''group'' \<and> elementType x \<noteq> ''diagram'')
        (Slide.elements slide))
      (projr (snd (processSlidesFromRawData exampleEnv exampleGroupDocument False)))"
    using inst by (simp add: c list_all_iff)
  have 3: "map elementBox (Slide.elements (fst (projr
        (parseElements exampleEnv 2 [exampleGroup] (exampleSlide, 0)))))
      = [Some (30, 54, 200, 100), Some (90, 54, 200, 100)]"
    using inst g
    by (simp add: exampleGroup_children push_elements textElement_fields scaled_fields
        exampleText_attrs exampleSlide_def)
  show ?thesis using 1 3 by (simp add: c k)
qed

subsection \<open>Scaling of the linear fields\<close>













lemma shapeLiteral_fields:
  "PPTShapeElement.type (shapeLiteral env i el r) = ''shape''"
  "PPTShapeElement.left (shapeLiteral env i el r) = BaseElement.left el"
  "PPTShapeElement.top' (shapeLiteral env i el r) = BaseElement.top' el"
  "PPTShapeElement.width (shapeLiteral env i el r) = BaseElement.width el"
  "PPTShapeElement.height (shapeLiteral env i el r) = BaseElement.height el"
  "PPTElementOutline.width (PPTShapeElement.outline (shapeLiteral env i el r))
     = toFixed2 (BaseElement.borderWidth el * r)"
  "PPTShapeElement.shadow (shapeLiteral env i el r)
     = map_option (\<lambda>sh. scaleShadow sh r) (BaseElement.shadow el)"
  "PPTShapeElement.gradient (shapeLiteral env i el r) = shapeGradient env (BaseElement.fill el)"
  "PPTShapeElement.path (shapeLiteral env i el r) = ''M 0 0 L 200 0 L 200 200 L 0 200 Z''"
  by (simp_all add: shapeLiteral_def Let_def split: option.splits)


lemma parseElements_single: "parseElements env ratio [e] st = parseLoop env ratio [e] st"
  by (simp add: parseElements_def sortByOrder_single)






subsection \<open>Shapes without a usable geometry\<close>

lemma replaceNaN_empty: "replaceNaN p = [] \<longleftrightarrow> p = []"
  by (cases p) simp_all

lemma shapeElement_unmatched:
  assumes "find (\<lambda>item. pptxShapeType item = Some (shapType el)) (shapeList env) = None"
    and "shapType el \<noteq> ''custom''"
  shows "shapeElement env i el r ow oh =
     Inr (case BaseElement.path el of
            Some p \<Rightarrow>
              (if p \<noteq> [] \<and> \<not> includes' p ''NaN''
               then (shapeLiteral env i el r)\<lparr>PPTShapeElement.path := p,
                      PPTShapeElement.viewBox := pathViewBox (getSvgPathRange env p) ow oh\<rparr>
               else shapeLiteral env i el r)
          | None \<Rightarrow> shapeLiteral env i el r)"
  using assms by (simp add: shapeElement_def Let_def split: option.splits)

lemma shapeElement_custom:
  assumes "find (\<lambda>item. pptxShapeType item = Some (shapType el)) (shapeList env) = None"
    and "shapType el = ''custom''" and "BaseElement.path el = Some p"
    and "shapeElement env i el r ow oh = Inr y"
  shows "PPTShapeElement.path y = (if includes' p ''NaN'' then replaceNaN p else p)"
  using assms
  by (auto simp add: shapeElement_def customShape_def Let_def split: option.splits if_splits)

lemma shapeElement_custom_total:
  assumes "find (\<lambda>item. pptxShapeType item = Some (shapType el)) (shapeList env) = None"
    and "shapType el = ''custom''" and "BaseElement.path el = Some p"
  shows "\<exists>y. shapeElement env i el r ow oh = Inr y"
  using assms
  by (auto simp add: shapeElement_def customShape_def Let_def split: option.splits if_splits)

lemma exampleEnv_unmatched:
  "find (\<lambda>item. pptxShapeType item = Some ''cloud'') (shapeList exampleEnv) = None"
  "find (\<lambda>item. pptxShapeType item = Some ''custom'') (shapeList exampleEnv) = None"
  by (simp_all add: shapeList_def exampleEnv_def)

lemma exampleUnknownShape_attrs:
  "BaseElement.type exampleUnknownShape = ''shape''" "shapType exampleUnknownShape = ''cloud''"
  "BaseElement.path exampleUnknownShape = None"
  by (simp_all add: exampleUnknownShape_def exampleElement_def)

lemma exampleEmptyCustomShape_attrs:
  "BaseElement.type exampleEmptyCustomShape = ''shape''" "shapType exampleEmptyCustomShape = ''custom''"
  "BaseElement.path exampleEmptyCustomShape = Some []"
  by (simp_all add: exampleEmptyCustomShape_def exampleElement_def)


text \<open>
  C1, as the claim states it, at a shape whose type \<open>cloud\<close> matches no entry
  of the shape table and that has no raw path: the element is pushed (as the
  rectangle of the object literal), not dropped.
\<close>

theorem unknown_shape_counterexample:
  "map elementType (Slide.elements (fst (projr
       (parseElements exampleEnv 1 [Element exampleUnknownShape []] (exampleSlide, 0)))))
     = [''shape'']"
proof -
  have y: "shapeElement exampleEnv (nanoid exampleEnv 0) (scaled exampleUnknownShape 1) 1
        (num_or (BaseElement.width exampleUnknownShape) 1)
        (num_or (BaseElement.height exampleUnknownShape) 1)
      = Inr (shapeLiteral exampleEnv (nanoid exampleEnv 0) (scaled exampleUnknownShape 1) 1)"
    using shapeElement_unmatched [of "scaled exampleUnknownShape 1" exampleEnv "nanoid exampleEnv 0" 1
        "num_or (BaseElement.width exampleUnknownShape) 1"
        "num_or (BaseElement.height exampleUnknownShape) 1"]
    by (simp add: scaled_fields exampleUnknownShape_attrs exampleEnv_unmatched scaled_def)
  have "parseElements exampleEnv 1 [Element exampleUnknownShape []] (exampleSlide, 0)
      = Inr (push (ShapeElement
               (shapeLiteral exampleEnv (nanoid exampleEnv 0) (scaled exampleUnknownShape 1) 1))
             (exampleSlide, 0))"
    by (simp add: parseElements_single parseLoop_shape exampleUnknownShape_attrs y shapeLiteral_fields)
  then show ?thesis
    by (simp add: push_elements shapeLiteral_fields exampleSlide_def)
qed


text \<open>
  C1, amended. For a raw shape that is not a line or connector and whose
  conversion raises no exception, the element is left out of the slide exactly
  when its resolved path is the empty string, and the conversion of the
  remaining elements continues in both cases. A shape whose type matches no
  entry of the shape table and is not \<open>custom\<close> is always pushed: with its raw
  path and the viewBox computed from the range of the path when the raw path
  is not empty and holds no \<open>NaN\<close>, and otherwise with the rectangle
  \<open>M 0 0 L 200 0 L 200 200 L 0 200 Z\<close> and the viewBox \<open>[200, 200]\<close>; the value of
  the viewBox never decides. A \<open>custom\<close> shape that the table does not know and
  that has a raw path gets this path, with every \<open>NaN\<close> replaced by \<open>0\<close>: it is
  left out exactly when the raw path is the empty string.
\<close>

theorem shape_push_policy:
  assumes "BaseElement.type (attrs e) = ''shape''"
    and "\<not> (shapType (attrs e) = ''line'' \<or> includes' (shapType (attrs e)) ''Connector'')"
  shows "(\<forall>element.
            shapeElement env (nanoid env (snd st)) (scaled (attrs e) ratio) ratio
              (num_or (BaseElement.width (attrs e)) 1) (num_or (BaseElement.height (attrs e)) 1)
              = Inr element \<longrightarrow>
            parseLoop env ratio (e # rest) st
              = parseLoop env ratio rest
                  (if PPTShapeElement.path element \<noteq> [] then push (ShapeElement element) st
                   else (fst st, Suc (snd st))))
       \<and> (find (\<lambda>item. pptxShapeType item = Some (shapType (attrs e))) (shapeList env) = None
            \<and> shapType (attrs e) \<noteq> ''custom'' \<longrightarrow>
          (\<exists>element.
              shapeElement env (nanoid env (snd st)) (scaled (attrs e) ratio) ratio
                (num_or (BaseElement.width (attrs e)) 1) (num_or (BaseElement.height (attrs e)) 1)
                = Inr element
            \<and> parseLoop env ratio (e # rest) st
                = parseLoop env ratio rest (push (ShapeElement element) st)
            \<and> (PPTShapeElement.path element, PPTShapeElement.viewBox element)
                = (case BaseElement.path (attrs e) of
                     Some p \<Rightarrow>
                       (if p \<noteq> [] \<and> \<not> includes' p ''NaN''
                        then (p, pathViewBox (getSvgPathRange env p)
                                   (num_or (BaseElement.width (attrs e)) 1)
                                   (num_or (BaseElement.height (attrs e)) 1))
                        else (''M 0 0 L 200 0 L 200 200 L 0 200 Z'', (200, 200)))
                   | None \<Rightarrow> (''M 0 0 L 200 0 L 200 200 L 0 200 Z'', (200, 200)))))
       \<and> (find (\<lambda>item. pptxShapeType item = Some (shapType (attrs e))) (shapeList env) = None
            \<and> shapType (attrs e) = ''custom'' \<and> BaseElement.path (attrs e) = Some p \<longrightarrow>
          (\<exists>element.
              shapeElement env (nanoid env (snd st)) (scaled (attrs e) ratio) ratio
                (num_or (BaseElement.width (attrs e)) 1) (num_or (BaseElement.height (attrs e)) 1)
                = Inr element
            \<and> PPTShapeElement.path element = (if includes' p ''NaN'' then replaceNaN p else p)
            \<and> (PPTShapeElement.path element = [] \<longleftrightarrow> p = [])))"
proof -
  let ?el = "scaled (attrs e) ratio"
  let ?ow = "num_or (BaseElement.width (attrs e)) 1"
  let ?oh = "num_or (BaseElement.height (attrs e)) 1"
  let ?i = "nanoid env (snd st)"
  have sp: "BaseElement.path ?el = BaseElement.path (attrs e)"
    by (simp add: scaled_def)
  have 1: "parseLoop env ratio (e # rest) st
              = parseLoop env ratio rest
                  (if PPTShapeElement.path element \<noteq> [] then push (ShapeElement element) st
                   else (fst st, Suc (snd st)))"
    if "shapeElement env ?i ?el ratio ?ow ?oh = Inr element" for element
    using that by (simp add: parseLoop_shape [OF assms])
  have 2: "\<exists>element.
              shapeElement env ?i ?el ratio ?ow ?oh = Inr element
            \<and> parseLoop env ratio (e # rest) st
                = parseLoop env ratio rest (push (ShapeElement element) st)
            \<and> (PPTShapeElement.path element, PPTShapeElement.viewBox element)
                = (case BaseElement.path (attrs e) of
                     Some p \<Rightarrow>
                       (if p \<noteq> [] \<and> \<not> includes' p ''NaN''
                        then (p, pathViewBox (getSvgPathRange env p) ?ow ?oh)
                        else (''M 0 0 L 200 0 L 200 200 L 0 200 Z'', (200, 200)))
                   | None \<Rightarrow> (''M 0 0 L 200 0 L 200 200 L 0 200 Z'', (200, 200)))"
    if none: "find (\<lambda>item. pptxShapeType item = Some (shapType (attrs e))) (shapeList env) = None"
      and nc: "shapType (attrs e) \<noteq> ''custom''"
  proof -
    define y where "y = (case BaseElement.path ?el of
            Some p \<Rightarrow>
              (if p \<noteq> [] \<and> \<not> includes' p ''NaN''
               then (shapeLiteral env ?i ?el ratio)\<lparr>PPTShapeElement.path := p,
                      PPTShapeElement.viewBox := pathViewBox (getSvgPathRange env p) ?ow ?oh\<rparr>
               else shapeLiteral env ?i ?el ratio)
          | None \<Rightarrow> shapeLiteral env ?i ?el ratio)"
    have y: "shapeElement env ?i ?el ratio ?ow ?oh = Inr y"
      unfolding y_def
      by (rule shapeElement_unmatched) (simp_all add: scaled_fields none nc)
    have lit: "PPTShapeElement.viewBox (shapeLiteral env ?i ?el ratio) = (200, 200)"
      by (simp add: shapeLiteral_def Let_def split: option.splits)
    have pv: "(PPTShapeElement.path y, PPTShapeElement.viewBox y)
                = (case BaseElement.path (attrs e) of
                     Some p \<Rightarrow>
                       (if p \<noteq> [] \<and> \<not> includes' p ''NaN''
                        then (p, pathViewBox (getSvgPathRange env p) ?ow ?oh)
                        else (''M 0 0 L 200 0 L 200 200 L 0 200 Z'', (200, 200)))
                   | None \<Rightarrow> (''M 0 0 L 200 0 L 200 200 L 0 200 Z'', (200, 200)))"
      by (simp add: y_def sp shapeLiteral_fields lit split: option.splits)
    then have "PPTShapeElement.path y \<noteq> []"
      by (auto split: option.splits if_splits)
    then show ?thesis
      using 1 [OF y] y pv by (intro exI [of _ y]) simp
  qed
  have 3: "\<exists>element. shapeElement env ?i ?el ratio ?ow ?oh = Inr element
            \<and> PPTShapeElement.path element = (if includes' p ''NaN'' then replaceNaN p else p)
            \<and> (PPTShapeElement.path element = [] \<longleftrightarrow> p = [])"
    if none: "find (\<lambda>item. pptxShapeType item = Some (shapType (attrs e))) (shapeList env) = None"
      and c: "shapType (attrs e) = ''custom''" and p: "BaseElement.path (attrs e) = Some p"
  proof -
    have n': "find (\<lambda>item. pptxShapeType item = Some (shapType ?el)) (shapeList env) = None"
      and c': "shapType ?el = ''custom''" and p': "BaseElement.path ?el = Some p"
      using none c p by (simp_all add: scaled_fields sp)
    from shapeElement_custom_total [OF n' c' p', of ?i ratio ?ow ?oh]
    obtain y where y: "shapeElement env ?i ?el ratio ?ow ?oh = Inr y" ..
    show ?thesis
      using y shapeElement_custom [OF n' c' p' y] by (auto simp add: replaceNaN_empty)
  qed
  show ?thesis
    using 1 2 3 by blast
qed



theorem shape_push_policy_witness:
  "map elementType (Slide.elements (fst (projr
       (parseLoop exampleEnv 1 [Element exampleUnknownShape []] (exampleSlide, 0)))))
     = [''shape'']
   \<and> Slide.elements (fst (projr
       (parseLoop exampleEnv 1 [Element exampleEmptyCustomShape []] (exampleSlide, 0)))) = []"
proof -
  have s0: "Slide.elements exampleSlide = []"
    by (simp add: exampleSlide_def)
  have u: "BaseElement.type (attrs (Element exampleUnknownShape [])) = ''shape''"
    "\<not> (shapType (attrs (Element exampleUnknownShape [])) = ''line''
        \<or> includes' (shapType (attrs (Element exampleUnknownShape []))) ''Connector'')"
    by (simp_all add: exampleUnknownShape_attrs)
  have c: "BaseElement.type (attrs (Element exampleEmptyCustomShape [])) = ''shape''"
    "\<not> (shapType (attrs (Element exampleEmptyCustomShape [])) = ''line''
        \<or> includes' (shapType (attrs (Element exampleEmptyCustomShape []))) ''Connector'')"
    by (simp_all add: exampleEmptyCustomShape_attrs)
  from shape_push_policy [OF u, of exampleEnv "(exampleSlide, 0)" 1 "[]" "[]"]
  obtain x where x: "shapeElement exampleEnv (nanoid exampleEnv 0) (scaled exampleUnknownShape 1) 1
        (num_or (BaseElement.width exampleUnknownShape) 1)
        (num_or (BaseElement.height exampleUnknownShape) 1) = Inr x"
    and px: "parseLoop exampleEnv 1 [Element exampleUnknownShape []] (exampleSlide, 0)
        = Inr (push (ShapeElement x) (exampleSlide, 0))"
    by (auto simp add: exampleUnknownShape_attrs exampleEnv_unmatched)
  have 1: "map elementType (Slide.elements (fst (projr
       (parseLoop exampleEnv 1 [Element exampleUnknownShape []] (exampleSlide, 0))))) = [''shape'']"
    unfolding px by (simp add: push_elements s0 shapeElement_type [OF x])
  from shape_push_policy [OF c, of exampleEnv "(exampleSlide, 0)" 1 "[]" "[]"]
  have 2: "parseLoop exampleEnv 1 [Element exampleEmptyCustomShape []] (exampleSlide, 0)
        = Inr (exampleSlide, Suc 0)"
    by (auto simp add: exampleEmptyCustomShape_attrs exampleEnv_unmatched)
  show ?thesis
    using 1 unfolding 2 by (simp add: s0)
qed

end
